theory Spec2Isabelle
  imports Main "HOL-Library.Multiset"
begin

section \<open>Data model (shared/schema.ts)\<close>

text \<open>
  Identifiers are the \<open>varchar\<close> primary keys of the schema. Every table fills its
  \<open>id\<close> column from \<open>gen_random_uuid()\<close> and its creation time from \<open>now()\<close>; both
  are readings of the environment, so each insert of the model takes the generated
  identifier and the clock reading as arguments (a \<open>draw\<close>).
\<close>

type_synonym ident = string
type_synonym timestamp = nat
type_synonym draw = "ident \<times> timestamp"

text \<open>
  A column with a default that an insert schema does not omit can be left out of the
  inserted value (the default applies) or given, possibly as \<open>NULL\<close>.
\<close>

datatype 'a column_value = UseDefault | Given 'a

fun or_default :: "'a \<Rightarrow> 'a column_value \<Rightarrow> 'a" where
  "or_default d UseDefault = d"
| "or_default d (Given v) = v"

text \<open>
  \<open>users\<close>: \<open>insertUserSchema\<close> omits \<open>id\<close>, \<open>isOnline\<close>, \<open>lastSeen\<close> and
  \<open>createdAt\<close>, and the only update of the table writes a boolean to \<open>isOnline\<close>, so
  \<open>isOnline\<close> and \<open>createdAt\<close> are never \<open>NULL\<close>; \<open>lastSeen\<close> has no default.
\<close>

record user =
  user_id :: ident
  username :: string
  email :: string
  password :: string
  user_avatar :: "string option"
  isOnline :: bool
  lastSeen :: "timestamp option"
  user_createdAt :: timestamp

record conversation =
  conv_id :: ident
  conv_name :: "string option"
  description :: "string option"
  isGroup :: "bool option"
  conv_avatar :: "string option"
  createdBy :: "ident option"
  conv_createdAt :: timestamp

record insertConversation =
  ins_name :: "string option"
  ins_description :: "string option"
  ins_isGroup :: "bool option column_value"
  ins_avatar :: "string option"
  ins_createdBy :: "ident option"

record conversationMember =
  member_id :: ident
  member_conversationId :: ident
  member_userId :: ident
  joinedAt :: timestamp

text \<open>
  \<open>messages\<close>: \<open>insertMessageSchema\<close> omits \<open>id\<close>, \<open>createdAt\<close> and \<open>isDeleted\<close>, and
  the only update writes \<open>true\<close> to \<open>isDeleted\<close>, so these columns always hold their
  default or a written value and are never \<open>NULL\<close>. \<open>replyToId\<close> is a plain nullable
  \<open>varchar\<close>: the schema declares no reference for it.
\<close>

record message =
  msg_id :: ident
  msg_conversationId :: ident
  senderId :: ident
  content :: "string option"
  msg_type :: "string option"
  fileUrl :: "string option"
  fileName :: "string option"
  fileSize :: "int option"
  replyToId :: "ident option"
  isDeleted :: bool
  msg_createdAt :: timestamp

record insertMessage =
  ins_conversationId :: ident
  ins_senderId :: ident
  ins_content :: "string option"
  ins_type :: "string option column_value"
  ins_fileUrl :: "string option"
  ins_fileName :: "string option"
  ins_fileSize :: "int option"
  ins_replyToId :: "ident option"

record call =
  call_id :: ident
  call_conversationId :: ident
  callerId :: ident
  call_type :: string
  status :: "string option"
  startedAt :: timestamp
  endedAt :: "timestamp option"

record insertCall =
  insc_conversationId :: ident
  insc_callerId :: ident
  insc_type :: string
  insc_status :: "string option column_value"

record db =
  users :: "user list"
  conversations :: "conversation list"
  conversationMembers :: "conversationMember list"
  messages :: "message list"
  calls :: "call list"

text \<open>
  What a storage call raises: the database's unique and foreign-key violations (the
  spec calls both \<open>ConstraintViolation\<close>), its \<open>integer out of range\<close> for a value
  that does not fit a 32-bit \<open>integer\<close> column, and the query builder's
  \<open>No values to set\<close> for an update whose values are all \<open>undefined\<close>. A statement
  that raises leaves the tables as they were, but a storage method made of several
  statements keeps the effects of the statements that ran before the failing one (no
  method opens a transaction), so every method returns the tables beside its result.
\<close>

datatype error =
  UniqueViolation | ForeignKeyViolation | NumericValueOutOfRange | NoValuesToSet

text \<open>The values of a PostgreSQL \<open>integer\<close> column.\<close>

definition int32_range :: "int \<Rightarrow> bool" where
  "int32_range i \<longleftrightarrow> - 2147483648 \<le> i \<and> i \<le> 2147483647"

type_synonym 'a result = "(error + 'a) \<times> db"

text \<open>
  The integrity constraints the schema declares: primary keys are unique, and every
  \<open>references\<close> column that is not \<open>NULL\<close> names a row of its target table.
  Identifiers come from \<open>gen_random_uuid()\<close>, so none is the empty string.
\<close>

definition wf_db :: "db \<Rightarrow> bool" where
  "wf_db d \<longleftrightarrow>
     distinct (map user_id (users d)) \<and>
     distinct (map conv_id (conversations d)) \<and>
     distinct (map member_id (conversationMembers d)) \<and>
     distinct (map msg_id (messages d)) \<and>
     distinct (map call_id (calls d)) \<and>
     list_all (\<lambda>u. user_id u \<noteq> []) (users d) \<and>
     list_all (\<lambda>c. conv_id c \<noteq> []) (conversations d) \<and>
     list_all (\<lambda>m. msg_id m \<noteq> []) (messages d) \<and>
     list_all (\<lambda>c. case createdBy c of None \<Rightarrow> True
                      | Some u \<Rightarrow> u \<in> set (map user_id (users d))) (conversations d) \<and>
     list_all (\<lambda>m. member_conversationId m \<in> set (map conv_id (conversations d)) \<and>
                    member_userId m \<in> set (map user_id (users d))) (conversationMembers d) \<and>
     list_all (\<lambda>m. msg_conversationId m \<in> set (map conv_id (conversations d)) \<and>
                    senderId m \<in> set (map user_id (users d))) (messages d) \<and>
     list_all (\<lambda>c. call_conversationId c \<in> set (map conv_id (conversations d)) \<and>
                    callerId c \<in> set (map user_id (users d))) (calls d)"

section \<open>Persistence layer (server/storage.ts)\<close>

text \<open>
  JavaScript truthiness of a nullable string (\<open>filter(Boolean)\<close>, \<open>x ? a : b\<close>,
  \<open>if (x)\<close>): \<open>NULL\<close>/\<open>undefined\<close> and \<open>""\<close> are falsy. \<open>truthy_string\<close> gives the
  string when it is truthy.
\<close>

fun truthy_string :: "string option \<Rightarrow> string option" where
  "truthy_string None = None"
| "truthy_string (Some s) = (if s = [] then None else Some s)"

text \<open>\<open>const [row] = await ...; return row || undefined\<close>: the first row, if any.\<close>

fun first_row :: "'a list \<Rightarrow> 'a option" where
  "first_row [] = None"
| "first_row (x # _) = Some x"

definition getUser :: "db \<Rightarrow> ident \<Rightarrow> user option" where
  "getUser d uid = first_row (filter (\<lambda>u. user_id u = uid) (users d))"

subsection \<open>deleteMessage\<close>

text \<open>
  \<open>UPDATE messages SET is_deleted = true WHERE id = messageId AND sender_id = userId
  RETURNING *\<close>; the method returns whether a row came back.
\<close>

definition deleteMessage :: "db \<Rightarrow> ident \<Rightarrow> ident \<Rightarrow> bool \<times> db" where
  "deleteMessage d messageId userId =
     (let hit = (\<lambda>m. msg_id m = messageId \<and> senderId m = userId);
          result = map (\<lambda>m. m\<lparr>isDeleted := True\<rparr>) (filter hit (messages d))
      in (length result > 0,
          d\<lparr>messages := map (\<lambda>m. if hit m then m\<lparr>isDeleted := True\<rparr> else m) (messages d)\<rparr>))"

subsection \<open>Inserts, joins and set operations\<close>

text \<open>
  \<open>a INNER JOIN b ON on\<close>: the pairs of rows that satisfy the join condition. SQL
  leaves the order of a result without \<open>ORDER BY\<close> open; the model lists it in table
  order, and no property below depends on that order except where it says so.
\<close>

definition inner_join :: "'a list \<Rightarrow> 'b list \<Rightarrow> ('a \<Rightarrow> 'b \<Rightarrow> bool) \<Rightarrow> ('a \<times> 'b) list" where
  "inner_join xs ys on = concat (map (\<lambda>x. map (Pair x) (filter (on x) ys)) xs)"

text \<open>\<open>INTERSECT\<close>: the distinct rows of the left operand that the right operand has too.\<close>

definition intersect :: "'a list \<Rightarrow> 'a list \<Rightarrow> 'a list" where
  "intersect xs ys = remdups (filter (\<lambda>x. x \<in> set ys) xs)"

text \<open>Sequencing of storage calls: the first \<open>throw\<close> ends the method.\<close>

definition and_then :: "'a result \<Rightarrow> ('a \<Rightarrow> db \<Rightarrow> 'b result) \<Rightarrow> 'b result" where
  "and_then r k = (case r of (Inl e, d) \<Rightarrow> (Inl e, d) | (Inr x, d) \<Rightarrow> k x d)"

subsection \<open>Conversations and membership\<close>

text \<open>
  \<open>INSERT INTO conversations VALUES (...) RETURNING *\<close>. The primary key and the
  reference \<open>created_by \<rightarrow> users.id\<close> are checked by the database.
\<close>

definition createConversation :: "db \<Rightarrow> draw \<Rightarrow> insertConversation \<Rightarrow> conversation result" where
  "createConversation d dr ins =
     (let newConversation = \<lparr>conv_id = fst dr, conv_name = ins_name ins,
            description = ins_description ins,
            isGroup = or_default (Some False) (ins_isGroup ins),
            conv_avatar = ins_avatar ins, createdBy = ins_createdBy ins,
            conv_createdAt = snd dr\<rparr>
      in if fst dr \<in> set (map conv_id (conversations d)) then (Inl UniqueViolation, d)
         else if (case ins_createdBy ins of None \<Rightarrow> False
                  | Some u \<Rightarrow> u \<notin> set (map user_id (users d)))
         then (Inl ForeignKeyViolation, d)
         else (Inr newConversation, d\<lparr>conversations := conversations d @ [newConversation]\<rparr>))"

text \<open>
  \<open>INSERT INTO conversation_members (conversation_id, user_id) VALUES (...)
  ON CONFLICT DO NOTHING\<close>. The only unique index of the table is its primary key
  \<open>id\<close>: the schema declares none over (conversation, user). A row whose generated id
  is taken is skipped without an error, before any reference is checked; any other row
  is inserted if both references resolve.
\<close>

definition addConversationMember :: "db \<Rightarrow> draw \<Rightarrow> ident \<Rightarrow> ident \<Rightarrow> unit result" where
  "addConversationMember d dr conversationId userId =
     (if fst dr \<in> set (map member_id (conversationMembers d)) then (Inr (), d)
      else if conversationId \<notin> set (map conv_id (conversations d)) \<or>
              userId \<notin> set (map user_id (users d))
      then (Inl ForeignKeyViolation, d)
      else (Inr (), d\<lparr>conversationMembers := conversationMembers d @
              [\<lparr>member_id = fst dr, member_conversationId = conversationId,
                member_userId = userId, joinedAt = snd dr\<rparr>]\<rparr>))"

text \<open>
  The operand of the \<open>INTERSECT\<close> in \<open>getOrCreateDirectConversation\<close>: the
  conversation columns of \<open>conversations INNER JOIN conversation_members\<close> where the
  conversation is not a group and the member is the given user.
\<close>

definition directConversationsOf :: "db \<Rightarrow> ident \<Rightarrow> conversation list" where
  "directConversationsOf d userId =
     map fst (filter (\<lambda>(c, m). isGroup c = Some False \<and> member_userId m = userId)
       (inner_join (conversations d) (conversationMembers d)
          (\<lambda>c m. conv_id c = member_conversationId m)))"

definition existingConversation :: "db \<Rightarrow> ident \<Rightarrow> ident \<Rightarrow> conversation list" where
  "existingConversation d user1Id user2Id =
     intersect (directConversationsOf d user1Id) (directConversationsOf d user2Id)"

definition getOrCreateDirectConversation ::
  "db \<Rightarrow> draw \<Rightarrow> draw \<Rightarrow> draw \<Rightarrow> ident \<Rightarrow> ident \<Rightarrow> conversation result" where
  "getOrCreateDirectConversation d dc dm1 dm2 user1Id user2Id =
     (case existingConversation d user1Id user2Id of
        c # _ \<Rightarrow> (Inr c, d)
      | [] \<Rightarrow>
          and_then (createConversation d dc
              \<lparr>ins_name = None, ins_description = None, ins_isGroup = Given (Some False),
               ins_avatar = None, ins_createdBy = Some user1Id\<rparr>)
            (\<lambda>newConversation d1.
          and_then (addConversationMember d1 dm1 (conv_id newConversation) user1Id)
            (\<lambda>_ d2.
          and_then (addConversationMember d2 dm2 (conv_id newConversation) user2Id)
            (\<lambda>_ d3. (Inr newConversation, d3)))))"

subsection \<open>Messages\<close>

text \<open>
  An element of the history: \<open>{...message, sender, replyTo}\<close>, where \<open>replyTo\<close> is the
  joined row \<open>{message, sender}\<close> of the reply target.
\<close>

record historyMessage =
  hm_message :: message
  hm_sender :: user
  hm_replyTo :: "(message \<times> user) option"

text \<open>
  \<open>ORDER BY created_at DESC\<close>, as a stable insertion sort on the negated time; SQL
  leaves the order of rows with equal times open.
\<close>

definition order_desc_createdAt :: "(message \<times> user) list \<Rightarrow> (message \<times> user) list" where
  "order_desc_createdAt rows = sort_key (\<lambda>r. - int (msg_createdAt (fst r))) rows"

text \<open>\<open>new Map(pairs)\<close>: for a key given twice, the later entry replaces the earlier.\<close>

definition js_Map :: "('k \<times> 'v) list \<Rightarrow> 'k \<rightharpoonup> 'v" where
  "js_Map pairs = map_of (rev pairs)"

text \<open>\<open>FROM messages INNER JOIN users ON messages.sender_id = users.id\<close>\<close>

definition joined_with_sender :: "db \<Rightarrow> (message \<times> user) list" where
  "joined_with_sender d = inner_join (messages d) (users d) (\<lambda>m u. senderId m = user_id u)"

text \<open>
  The first query of \<open>getConversationMessages\<close>: the rows of the conversation that
  are not deleted, newest first, \<open>LIMIT lim OFFSET off\<close> (\<open>OFFSET\<close> applies before
  \<open>LIMIT\<close>).
\<close>

definition messageList :: "db \<Rightarrow> ident \<Rightarrow> nat \<Rightarrow> nat \<Rightarrow> (message \<times> user) list" where
  "messageList d conversationId lim off =
     take lim (drop off (order_desc_createdAt
       (filter (\<lambda>(m, u). msg_conversationId m = conversationId \<and> isDeleted m = False)
          (joined_with_sender d))))"

text \<open>\<open>messageList.map(m => m.message.replyToId).filter(Boolean)\<close>\<close>

definition replyIds :: "(message \<times> user) list \<Rightarrow> ident list" where
  "replyIds rows =
     concat (map (\<lambda>(m, u). case truthy_string (replyToId m) of None \<Rightarrow> [] | Some r \<Rightarrow> [r]) rows)"

text \<open>
  The second query, run only for a non-empty list of ids: the rows whose id is in the
  list, with their senders. It does not look at \<open>is_deleted\<close>.
\<close>

definition replyMessages :: "db \<Rightarrow> ident list \<Rightarrow> (message \<times> user) list" where
  "replyMessages d ids =
     (if length ids > 0 then filter (\<lambda>(m, u). msg_id m \<in> set ids) (joined_with_sender d)
      else [])"

text \<open>
  \<open>limit\<close> and \<open>offset\<close> are row counts (\<open>LIMIT\<close> and \<open>OFFSET\<close> take no negative
  value); an argument that is left out takes the default of the signature,
  \<open>limit = 50, offset = 0\<close>.
\<close>

definition getConversationMessages ::
  "db \<Rightarrow> ident \<Rightarrow> nat option \<Rightarrow> nat option \<Rightarrow> historyMessage list" where
  "getConversationMessages d conversationId limit offset =
     (let rows = messageList d conversationId
            (case limit of None \<Rightarrow> 50 | Some l \<Rightarrow> l)
            (case offset of None \<Rightarrow> 0 | Some k \<Rightarrow> k);
          replyMap = js_Map (map (\<lambda>r. (msg_id (fst r), r)) (replyMessages d (replyIds rows)))
      in rev (map (\<lambda>(m, u). \<lparr>hm_message = m, hm_sender = u,
                 hm_replyTo = (case truthy_string (replyToId m) of
                    None \<Rightarrow> None | Some r \<Rightarrow> replyMap r)\<rparr>)
            rows))"

text \<open>
  \<open>INSERT INTO messages ... RETURNING *\<close>, then the sender is read back:
  \<open>{...newMessage, sender}\<close>. \<open>file_size\<close> is an \<open>integer\<close> column: a value outside
  its range is refused when the statement binds its parameters, before any row is
  written. \<open>conversation_id\<close> and \<open>sender_id\<close> are references.
\<close>

definition createMessage :: "db \<Rightarrow> draw \<Rightarrow> insertMessage \<Rightarrow> (message \<times> user option) result" where
  "createMessage d dr ins =
     (let newMessage = \<lparr>msg_id = fst dr, msg_conversationId = ins_conversationId ins,
            senderId = ins_senderId ins, content = ins_content ins,
            msg_type = or_default (Some ''text'') (ins_type ins),
            fileUrl = ins_fileUrl ins, fileName = ins_fileName ins,
            fileSize = ins_fileSize ins, replyToId = ins_replyToId ins,
            isDeleted = False, msg_createdAt = snd dr\<rparr>
      in if (case ins_fileSize ins of None \<Rightarrow> False | Some n \<Rightarrow> \<not> int32_range n)
         then (Inl NumericValueOutOfRange, d)
         else if fst dr \<in> set (map msg_id (messages d)) then (Inl UniqueViolation, d)
         else if ins_conversationId ins \<notin> set (map conv_id (conversations d)) \<or>
                 ins_senderId ins \<notin> set (map user_id (users d))
         then (Inl ForeignKeyViolation, d)
         else (Inr (newMessage, getUser d (ins_senderId ins)),
               d\<lparr>messages := messages d @ [newMessage]\<rparr>))"

subsection \<open>Calls and presence\<close>

definition createCall :: "db \<Rightarrow> draw \<Rightarrow> insertCall \<Rightarrow> call result" where
  "createCall d dr ins =
     (let newCall = \<lparr>call_id = fst dr, call_conversationId = insc_conversationId ins,
            callerId = insc_callerId ins, call_type = insc_type ins,
            status = or_default (Some ''pending'') (insc_status ins),
            startedAt = snd dr, endedAt = None\<rparr>
      in if fst dr \<in> set (map call_id (calls d)) then (Inl UniqueViolation, d)
         else if insc_conversationId ins \<notin> set (map conv_id (conversations d)) \<or>
                 insc_callerId ins \<notin> set (map user_id (users d))
         then (Inl ForeignKeyViolation, d)
         else (Inr newCall, d\<lparr>calls := calls d @ [newCall]\<rparr>))"

text \<open>
  The \<open>status\<close> that a request body carries: the field can be missing (\<open>undefined\<close>),
  \<open>null\<close> or a string. The handler passes it on unchecked.
\<close>

datatype body_status = NoStatus | NullStatus | Status string

text \<open>
  \<open>UPDATE calls SET status = status WHERE id = callId\<close>. With \<open>status\<close> undefined the
  \<open>SET\<close> list is empty and the query builder throws before any statement is sent;
  \<open>null\<close> is written as \<open>NULL\<close>.
\<close>

definition updateCallStatus :: "db \<Rightarrow> ident \<Rightarrow> body_status \<Rightarrow> unit result" where
  "updateCallStatus d callId st =
     (case st of
        NoStatus \<Rightarrow> (Inl NoValuesToSet, d)
      | NullStatus \<Rightarrow>
          (Inr (), d\<lparr>calls := map (\<lambda>c. if call_id c = callId then c\<lparr>status := None\<rparr> else c)
                                (calls d)\<rparr>)
      | Status s \<Rightarrow>
          (Inr (), d\<lparr>calls := map (\<lambda>c. if call_id c = callId then c\<lparr>status := Some s\<rparr> else c)
                                (calls d)\<rparr>))"

definition endCall :: "db \<Rightarrow> timestamp \<Rightarrow> ident \<Rightarrow> db" where
  "endCall d now callId =
     d\<lparr>calls := map (\<lambda>c. if call_id c = callId
                          then c\<lparr>status := Some ''ended'', endedAt := Some now\<rparr> else c) (calls d)\<rparr>"

text \<open>
  \<open>UPDATE users SET is_online = isOnline, last_seen = (isOnline ? undefined : new Date())
  WHERE id = id\<close>; an \<open>undefined\<close> value leaves its column out of the \<open>SET\<close>.
\<close>

definition updateUserOnlineStatus :: "db \<Rightarrow> timestamp \<Rightarrow> ident \<Rightarrow> bool \<Rightarrow> db" where
  "updateUserOnlineStatus d now uid online =
     d\<lparr>users := map (\<lambda>u. if user_id u = uid
                          then (if online then u\<lparr>isOnline := online\<rparr>
                                else u\<lparr>isOnline := online, lastSeen := Some now\<rparr>)
                          else u) (users d)\<rparr>"

subsection \<open>User search\<close>

text \<open>
  \<open>text LIKE pattern\<close> of PostgreSQL: \<open>%\<close> stands for any run of characters, \<open>_\<close> for
  any one character, and a backslash takes the next pattern character literally (a
  pattern that ends in a lone backslash is an error in PostgreSQL; \<open>searchUsers\<close> only
  builds patterns that end in \<open>%\<close>). The first argument is the pattern.
\<close>

fun like_match :: "string \<Rightarrow> string \<Rightarrow> bool" where
  "like_match [] t = (t = [])"
| "like_match (p # ps) t =
     (if p = CHR ''%'' then
        like_match ps t \<or> (case t of [] \<Rightarrow> False | _ # ts \<Rightarrow> like_match (p # ps) ts)
      else if p = CHR ''_'' then
        (case t of [] \<Rightarrow> False | _ # ts \<Rightarrow> like_match ps ts)
      else if p = CHR 0x5C then
        (case ps of [] \<Rightarrow> False
         | q # qs \<Rightarrow> (case t of [] \<Rightarrow> False | c # ts \<Rightarrow> c = q \<and> like_match qs ts))
      else (case t of [] \<Rightarrow> False | c # ts \<Rightarrow> c = p \<and> like_match ps ts))"

text \<open>\<open>ILIKE\<close> folds the case of both sides first; the model folds the ASCII letters.\<close>

definition lower_char :: "char \<Rightarrow> char" where
  "lower_char c =
     (case map_of (zip ''ABCDEFGHIJKLMNOPQRSTUVWXYZ'' ''abcdefghijklmnopqrstuvwxyz'') c of
        None \<Rightarrow> c | Some l \<Rightarrow> l)"

definition ilike :: "string \<Rightarrow> string \<Rightarrow> bool" where
  "ilike t pattern = like_match (map lower_char pattern) (map lower_char t)"

text \<open>
  \<open>SELECT * FROM users WHERE (username ILIKE '%query%' OR email ILIKE '%query%')
  AND id != excludeUserId LIMIT 20\<close>; the model keeps the first twenty rows in table
  order.
\<close>

definition searchUsers :: "db \<Rightarrow> string \<Rightarrow> ident \<Rightarrow> user list" where
  "searchUsers d query excludeUserId =
     take 20 (filter (\<lambda>u. (ilike (username u) (''%'' @ query @ ''%'') \<or>
                            ilike (email u) (''%'' @ query @ ''%'')) \<and>
                           user_id u \<noteq> excludeUserId) (users d))"

text \<open>
  What the search is meant to compute: the query occurs in the text as a contiguous
  run of characters, up to the case of ASCII letters.
\<close>

fun is_prefix :: "string \<Rightarrow> string \<Rightarrow> bool" where
  "is_prefix [] t = True"
| "is_prefix (q # qs) [] = False"
| "is_prefix (q # qs) (c # ts) = (q = c \<and> is_prefix qs ts)"

fun occurs_in :: "string \<Rightarrow> string \<Rightarrow> bool" where
  "occurs_in q [] = (q = [])"
| "occurs_in q (c # ts) = (is_prefix q (c # ts) \<or> occurs_in q ts)"

definition ci_substring :: "string \<Rightarrow> string \<Rightarrow> bool" where
  "ci_substring query t = occurs_in (map lower_char query) (map lower_char t)"

section \<open>Transport layer (server/routes.ts)\<close>

text \<open>
  The presence map \<open>connections\<close> holds one socket per user id. A socket is modelled by
  its \<open>readyState\<close> and the frames \<open>ws.send\<close> has handed to it, oldest first. A frame
  is the envelope \<open>{type, data}\<close> before \<open>JSON.stringify\<close>.
\<close>

datatype readyState = CONNECTING | OPEN | CLOSING | CLOSED

datatype event_data =
    MessageData message "user option"
  | MessageRef ident
  | CallData call
  | CallRef ident body_status

record envelope =
  ev_type :: string
  ev_data :: event_data

record websocket =
  ws_readyState :: readyState
  ws_sent :: "envelope list"

record server =
  store :: db
  connections :: "ident \<rightharpoonup> websocket"

text \<open>
  \<open>connections.forEach((ws) => { if (ws.readyState === WebSocket.OPEN) ws.send(wsMessage) })\<close>
\<close>

definition broadcast :: "envelope \<Rightarrow> (ident \<rightharpoonup> websocket) \<Rightarrow> (ident \<rightharpoonup> websocket)" where
  "broadcast wsMessage conns =
     (\<lambda>k. case conns k of None \<Rightarrow> None
           | Some ws \<Rightarrow> if ws_readyState ws = OPEN
                        then Some (ws\<lparr>ws_sent := ws_sent ws @ [wsMessage]\<rparr>) else Some ws)"

text \<open>
  A response is the status code and the JSON body. \<open>req.user\<close> is \<open>None\<close> when
  \<open>req.isAuthenticated()\<close> is false; request bodies are the values the insert schemas
  have parsed.
\<close>

datatype json =
    JConversation conversation
  | JMessage message "user option"
  | JMessages "historyMessage list"
  | JCall call
  | JSuccess
  | JError string

type_synonym response = "nat \<times> json"

text \<open>
  \<open>POST /api/conversations\<close>: the conversation is inserted, then the creator, then
  each entry of \<open>memberIds\<close> in turn (the \<open>i\<close>-th insert takes the draw \<open>mdraws i\<close>).
  Any \<open>throw\<close> is caught and answered with 400; what was inserted before stays.
\<close>

fun addMembers :: "db \<Rightarrow> (nat \<Rightarrow> draw) \<Rightarrow> nat \<Rightarrow> ident \<Rightarrow> ident list \<Rightarrow> unit result" where
  "addMembers d mdraws i conversationId [] = (Inr (), d)"
| "addMembers d mdraws i conversationId (memberId # rest) =
     and_then (addConversationMember d (mdraws i) conversationId memberId)
       (\<lambda>_ d'. addMembers d' mdraws (Suc i) conversationId rest)"

definition postConversation ::
  "server \<Rightarrow> ident option \<Rightarrow> draw \<Rightarrow> draw \<Rightarrow> (nat \<Rightarrow> draw) \<Rightarrow>
     insertConversation \<Rightarrow> ident list option \<Rightarrow> response \<times> server" where
  "postConversation srv reqUser dc dcreator mdraws body memberIds =
     (case reqUser of
        None \<Rightarrow> ((401, JError ''Unauthorized''), srv)
      | Some uid \<Rightarrow>
          (case
             and_then (createConversation (store srv) dc (body\<lparr>ins_createdBy := Some uid\<rparr>))
               (\<lambda>conversation d1.
             and_then (addConversationMember d1 dcreator (conv_id conversation) uid)
               (\<lambda>_ d2.
             and_then (case memberIds of None \<Rightarrow> (Inr (), d2)
                       | Some ids \<Rightarrow> addMembers d2 mdraws 0 (conv_id conversation) ids)
               (\<lambda>_ d3. (Inr conversation, d3))))
           of (Inl e, d') \<Rightarrow> ((400, JError ''Failed to create conversation''), srv\<lparr>store := d'\<rparr>)
            | (Inr conversation, d') \<Rightarrow> ((201, JConversation conversation), srv\<lparr>store := d'\<rparr>)))"

text \<open>
  \<open>GET /api/conversations/:id/messages\<close>: \<open>limit ? parseInt(limit) : 50\<close> and
  \<open>offset ? parseInt(offset) : 0\<close> on the query strings; \<open>parseInt\<close> is the
  JavaScript builtin, taken as a parameter.
\<close>

definition query_number :: "(string \<Rightarrow> nat) \<Rightarrow> string option \<Rightarrow> nat \<Rightarrow> nat" where
  "query_number parseInt q dflt =
     (case truthy_string q of None \<Rightarrow> dflt | Some s \<Rightarrow> parseInt s)"

definition getMessages ::
  "(string \<Rightarrow> nat) \<Rightarrow> server \<Rightarrow> ident option \<Rightarrow> ident \<Rightarrow> string option \<Rightarrow> string option \<Rightarrow> response" where
  "getMessages parseInt srv reqUser cid limit offset =
     (case reqUser of
        None \<Rightarrow> (401, JError ''Unauthorized'')
      | Some uid \<Rightarrow>
          (200, JMessages (getConversationMessages (store srv) cid
                  (Some (query_number parseInt limit 50))
                  (Some (query_number parseInt offset 0)))))"

text \<open>\<open>POST /api/conversations/:id/messages\<close>\<close>

definition postMessage ::
  "server \<Rightarrow> ident option \<Rightarrow> draw \<Rightarrow> ident \<Rightarrow> insertMessage \<Rightarrow> response \<times> server" where
  "postMessage srv reqUser dr cid body =
     (case reqUser of
        None \<Rightarrow> ((401, JError ''Unauthorized''), srv)
      | Some uid \<Rightarrow>
          (case createMessage (store srv) dr (body\<lparr>ins_conversationId := cid, ins_senderId := uid\<rparr>)
           of (Inl e, d') \<Rightarrow> ((400, JError ''Failed to send message''), srv\<lparr>store := d'\<rparr>)
            | (Inr (message, sender), d') \<Rightarrow>
                ((201, JMessage message sender),
                 srv\<lparr>store := d',
                     connections := broadcast
                       \<lparr>ev_type = ''new_message'', ev_data = MessageData message sender\<rparr>
                       (connections srv)\<rparr>)))"

text \<open>\<open>DELETE /api/messages/:id\<close>\<close>

definition deleteMessageRoute :: "server \<Rightarrow> ident option \<Rightarrow> ident \<Rightarrow> response \<times> server" where
  "deleteMessageRoute srv reqUser mid =
     (case reqUser of
        None \<Rightarrow> ((401, JError ''Unauthorized''), srv)
      | Some uid \<Rightarrow>
          (case deleteMessage (store srv) mid uid of
             (success, d') \<Rightarrow>
               if \<not> success
               then ((404, JError ''Message not found or unauthorized''), srv\<lparr>store := d'\<rparr>)
               else ((200, JSuccess),
                     srv\<lparr>store := d',
                         connections := broadcast
                           \<lparr>ev_type = ''message_deleted'', ev_data = MessageRef mid\<rparr>
                           (connections srv)\<rparr>)))"

text \<open>\<open>POST /api/calls\<close>\<close>

definition postCall :: "server \<Rightarrow> ident option \<Rightarrow> draw \<Rightarrow> insertCall \<Rightarrow> response \<times> server" where
  "postCall srv reqUser dr body =
     (case reqUser of
        None \<Rightarrow> ((401, JError ''Unauthorized''), srv)
      | Some uid \<Rightarrow>
          (case createCall (store srv) dr (body\<lparr>insc_callerId := uid\<rparr>)
           of (Inl e, d') \<Rightarrow> ((400, JError ''Failed to initiate call''), srv\<lparr>store := d'\<rparr>)
            | (Inr newCall, d') \<Rightarrow>
                ((201, JCall newCall),
                 srv\<lparr>store := d',
                     connections := broadcast
                       \<lparr>ev_type = ''call_initiated'', ev_data = CallData newCall\<rparr>
                       (connections srv)\<rparr>)))"

text \<open>
  \<open>PATCH /api/calls/:id\<close>: \<open>status === "ended"\<close> ends the call, any other value goes
  to \<open>updateCallStatus\<close>; a \<open>throw\<close> is answered with 500, before the broadcast.
\<close>

definition patchCall ::
  "server \<Rightarrow> ident option \<Rightarrow> timestamp \<Rightarrow> ident \<Rightarrow> body_status \<Rightarrow> response \<times> server" where
  "patchCall srv reqUser now cid st =
     (case reqUser of
        None \<Rightarrow> ((401, JError ''Unauthorized''), srv)
      | Some uid \<Rightarrow>
          (case (if st = Status ''ended'' then (Inr (), endCall (store srv) now cid)
                 else updateCallStatus (store srv) cid st)
           of (Inl e, d') \<Rightarrow> ((500, JError ''Failed to update call''), srv\<lparr>store := d'\<rparr>)
            | (Inr _, d') \<Rightarrow>
                ((200, JSuccess),
                 srv\<lparr>store := d',
                     connections := broadcast
                       \<lparr>ev_type = ''call_status_updated'', ev_data = CallRef cid st\<rparr>
                       (connections srv)\<rparr>)))"

text \<open>
  \<open>wss.on('connection')\<close>: \<open>userId\<close> is the value of
  \<open>req.url?.split('userId=')[1]\<close>, absent when the URL carries no identity. The
  status updates are started without \<open>await\<close>; the model runs them to completion
  inside the handler.
\<close>

definition onConnection :: "server \<Rightarrow> timestamp \<Rightarrow> websocket \<Rightarrow> ident option \<Rightarrow> server" where
  "onConnection srv now ws userId =
     (case truthy_string userId of
        None \<Rightarrow> srv
      | Some uid \<Rightarrow>
          srv\<lparr>connections := (connections srv)(uid \<mapsto> ws),
              store := updateUserOnlineStatus (store srv) now uid True\<rparr>)"

text \<open>\<open>ws.on('close')\<close> of a connection that was opened with \<open>userId\<close>.\<close>

definition onClose :: "server \<Rightarrow> timestamp \<Rightarrow> ident option \<Rightarrow> server" where
  "onClose srv now userId =
     (case truthy_string userId of
        None \<Rightarrow> srv
      | Some uid \<Rightarrow>
          srv\<lparr>connections := (connections srv)(uid := None),
              store := updateUserOnlineStatus (store srv) now uid False\<rparr>)"

section \<open>Example states\<close>

text \<open>
  Three users; a direct conversation between alice and bob and a group of all three;
  four messages in the direct conversation, the first soft-deleted and quoted by the
  second, the third quoted by the fourth.
\<close>

definition alice :: user where
  "alice = \<lparr>user_id = ''u-alice'', username = ''alice'', email = ''alice@example.org'',
     password = ''h1'', user_avatar = None, isOnline = False, lastSeen = None,
     user_createdAt = 1\<rparr>"

definition bob :: user where
  "bob = \<lparr>user_id = ''u-bob'', username = ''Bob'', email = ''bob@example.org'',
     password = ''h2'', user_avatar = None, isOnline = False, lastSeen = None,
     user_createdAt = 2\<rparr>"

definition carol :: user where
  "carol = \<lparr>user_id = ''u-carol'', username = ''carol'', email = ''carol@example.org'',
     password = ''h3'', user_avatar = None, isOnline = False, lastSeen = None,
     user_createdAt = 3\<rparr>"

definition conv_ab :: conversation where
  "conv_ab = \<lparr>conv_id = ''c-ab'', conv_name = None, description = None,
     isGroup = Some False, conv_avatar = None, createdBy = Some ''u-alice'',
     conv_createdAt = 4\<rparr>"

definition conv_team :: conversation where
  "conv_team = \<lparr>conv_id = ''c-team'', conv_name = Some ''Team'', description = None,
     isGroup = Some True, conv_avatar = None, createdBy = Some ''u-alice'',
     conv_createdAt = 5\<rparr>"

definition member_row :: "ident \<Rightarrow> ident \<Rightarrow> ident \<Rightarrow> timestamp \<Rightarrow> conversationMember" where
  "member_row i c u t =
     \<lparr>member_id = i, member_conversationId = c, member_userId = u, joinedAt = t\<rparr>"

definition text_message ::
  "ident \<Rightarrow> ident \<Rightarrow> ident \<Rightarrow> string \<Rightarrow> ident option \<Rightarrow> bool \<Rightarrow> timestamp \<Rightarrow> message" where
  "text_message i c u body reply deleted t =
     \<lparr>msg_id = i, msg_conversationId = c, senderId = u, content = Some body,
      msg_type = Some ''text'', fileUrl = None, fileName = None, fileSize = None,
      replyToId = reply, isDeleted = deleted, msg_createdAt = t\<rparr>"

definition mb1 :: conversationMember where "mb1 = member_row ''mb-1'' ''c-ab'' ''u-alice'' 4"
definition mb2 :: conversationMember where "mb2 = member_row ''mb-2'' ''c-ab'' ''u-bob'' 4"
definition mb3 :: conversationMember where "mb3 = member_row ''mb-3'' ''c-team'' ''u-alice'' 5"
definition mb4 :: conversationMember where "mb4 = member_row ''mb-4'' ''c-team'' ''u-bob'' 5"
definition mb5 :: conversationMember where "mb5 = member_row ''mb-5'' ''c-team'' ''u-carol'' 5"

definition msg1 :: message where
  "msg1 = text_message ''m-1'' ''c-ab'' ''u-alice'' ''hi'' None True 10"

definition msg2 :: message where
  "msg2 = text_message ''m-2'' ''c-ab'' ''u-bob'' ''hello'' (Some ''m-1'') False 20"

definition msg3 :: message where
  "msg3 = text_message ''m-3'' ''c-ab'' ''u-alice'' ''lunch?'' None False 30"

definition msg4 :: message where
  "msg4 = text_message ''m-4'' ''c-ab'' ''u-bob'' ''yes'' (Some ''m-3'') False 40"

definition chat_db :: db where
  "chat_db = \<lparr>users = [alice, bob, carol],
     conversations = [conv_ab, conv_team],
     conversationMembers = [mb1, mb2, mb3, mb4, mb5],
     messages = [msg1, msg2, msg3, msg4],
     calls = []\<rparr>"

definition open_socket :: websocket where
  "open_socket = \<lparr>ws_readyState = OPEN, ws_sent = []\<rparr>"

definition chat_server :: server where
  "chat_server = \<lparr>store = chat_db, connections = Map.empty\<rparr>"

text \<open>
  A server on \<open>chat_db\<close> with two registered sockets: carol's is open, bob's is closing.
  Carol is not a member of the direct conversation \<open>c-ab\<close>.
\<close>

definition fan_server :: server where
  "fan_server = \<lparr>store = chat_db,
     connections = [''u-carol'' \<mapsto> open_socket,
                    ''u-bob'' \<mapsto> \<lparr>ws_readyState = CLOSING, ws_sent = []\<rparr>]\<rparr>"

definition hello_body :: insertMessage where
  "hello_body = \<lparr>ins_conversationId = [], ins_senderId = [], ins_content = Some ''hi'',
     ins_type = UseDefault, ins_fileUrl = None, ins_fileName = None, ins_fileSize = None,
     ins_replyToId = None\<rparr>"

text \<open>
  \<open>chat_db\<close> after \<open>POST /api/conversations\<close> by alice with \<open>memberIds = [u-bob]\<close>
  and no \<open>isGroup\<close> in the body: a second conversation that is not a group and has
  alice and bob as members.
\<close>

definition conv_ab2 :: conversation where
  "conv_ab2 = \<lparr>conv_id = ''c-ab2'', conv_name = None, description = None,
     isGroup = Some False, conv_avatar = None, createdBy = Some ''u-alice'',
     conv_createdAt = 6\<rparr>"

definition mb6 :: conversationMember where "mb6 = member_row ''mb-6'' ''c-ab2'' ''u-alice'' 6"
definition mb7 :: conversationMember where "mb7 = member_row ''mb-7'' ''c-ab2'' ''u-bob'' 6"

definition dup_db :: db where
  "dup_db = chat_db\<lparr>conversations := [conv_ab, conv_team, conv_ab2],
     conversationMembers := [mb1, mb2, mb3, mb4, mb5, mb6, mb7]\<rparr>"

definition plain_body :: insertConversation where
  "plain_body = \<lparr>ins_name = None, ins_description = None, ins_isGroup = UseDefault,
     ins_avatar = None, ins_createdBy = None\<rparr>"

text \<open>
  A request of alice for a group with bob, an id that names no user, and carol.
\<close>

definition group_body :: insertConversation where
  "group_body = \<lparr>ins_name = Some ''Crew'', ins_description = None,
     ins_isGroup = Given (Some True), ins_avatar = None, ins_createdBy = None\<rparr>"

definition conv_crew :: conversation where
  "conv_crew = \<lparr>conv_id = ''c-crew'', conv_name = Some ''Crew'', description = None,
     isGroup = Some True, conv_avatar = None, createdBy = Some ''u-alice'',
     conv_createdAt = 50\<rparr>"

definition crew_draws :: "nat \<Rightarrow> draw" where
  "crew_draws i = (if i = 0 then (''mb-11'', 52) else if i = 1 then (''mb-12'', 53)
                   else (''mb-13'', 54))"

definition failed_group_request :: "response \<times> server" where
  "failed_group_request =
     postConversation chat_server (Some ''u-alice'') (''c-crew'', 50) (''mb-10'', 51) crew_draws
       group_body (Some [''u-bob'', ''u-ghost'', ''u-carol''])"

text \<open>Views of the membership table used to state the examples.\<close>

definition member_pairs :: "db \<Rightarrow> (ident \<times> ident) list" where
  "member_pairs d = map (\<lambda>m. (member_conversationId m, member_userId m)) (conversationMembers d)"

definition members_of :: "db \<Rightarrow> ident \<Rightarrow> ident list" where
  "members_of d cid =
     map member_userId (filter (\<lambda>m. member_conversationId m = cid) (conversationMembers d))"

definition bob_draws :: "nat \<Rightarrow> draw" where
  "bob_draws i = (''mb-7'', 6)"

text \<open>
  The server of the fan-out example with one pending voice call in \<open>c-ab\<close>, and the
  body of a request for another one.
\<close>

definition call1 :: call where
  "call1 = \<lparr>call_id = ''call-1'', call_conversationId = ''c-ab'', callerId = ''u-bob'',
     call_type = ''voice'', status = Some ''pending'', startedAt = 60, endedAt = None\<rparr>"

definition call_server :: server where
  "call_server = fan_server\<lparr>store := chat_db\<lparr>calls := [call1]\<rparr>\<rparr>"

definition voice_body :: insertCall where
  "voice_body = \<lparr>insc_conversationId = ''c-ab'', insc_callerId = [], insc_type = ''voice'',
     insc_status = UseDefault\<rparr>"

section \<open>Properties\<close>

subsection \<open>The example state\<close>

lemmas example_defs =
  alice_def bob_def carol_def conv_ab_def conv_team_def member_row_def text_message_def
  mb1_def mb2_def mb3_def mb4_def mb5_def msg1_def msg2_def msg3_def msg4_def chat_db_def

lemma chat_db_tables:
  "users chat_db = [alice, bob, carol]"
  "conversations chat_db = [conv_ab, conv_team]"
  "conversationMembers chat_db = [mb1, mb2, mb3, mb4, mb5]"
  "messages chat_db = [msg1, msg2, msg3, msg4]"
  "calls chat_db = []"
  by (simp_all add: chat_db_def)

lemma user_fields:
  "user_id alice = ''u-alice''" "user_id bob = ''u-bob''" "user_id carol = ''u-carol''"
  "username alice = ''alice''" "username bob = ''Bob''" "username carol = ''carol''"
  "email alice = ''alice@example.org''" "email bob = ''bob@example.org''"
  "email carol = ''carol@example.org''"
  by (simp_all add: alice_def bob_def carol_def)

lemma conversation_fields:
  "conv_id conv_ab = ''c-ab''" "conv_id conv_team = ''c-team''"
  "isGroup conv_ab = Some False" "isGroup conv_team = Some True"
  "createdBy conv_ab = Some ''u-alice''" "createdBy conv_team = Some ''u-alice''"
  by (simp_all add: conv_ab_def conv_team_def)

lemma member_fields:
  "member_id mb1 = ''mb-1''" "member_id mb2 = ''mb-2''" "member_id mb3 = ''mb-3''"
  "member_id mb4 = ''mb-4''" "member_id mb5 = ''mb-5''"
  "member_conversationId mb1 = ''c-ab''" "member_conversationId mb2 = ''c-ab''"
  "member_conversationId mb3 = ''c-team''" "member_conversationId mb4 = ''c-team''"
  "member_conversationId mb5 = ''c-team''"
  "member_userId mb1 = ''u-alice''" "member_userId mb2 = ''u-bob''"
  "member_userId mb3 = ''u-alice''" "member_userId mb4 = ''u-bob''"
  "member_userId mb5 = ''u-carol''"
  by (simp_all add: mb1_def mb2_def mb3_def mb4_def mb5_def member_row_def)

lemma message_fields:
  "msg_id msg1 = ''m-1''" "msg_id msg2 = ''m-2''" "msg_id msg3 = ''m-3''" "msg_id msg4 = ''m-4''"
  "msg_conversationId msg1 = ''c-ab''" "msg_conversationId msg2 = ''c-ab''"
  "msg_conversationId msg3 = ''c-ab''" "msg_conversationId msg4 = ''c-ab''"
  "senderId msg1 = ''u-alice''" "senderId msg2 = ''u-bob''"
  "senderId msg3 = ''u-alice''" "senderId msg4 = ''u-bob''"
  "replyToId msg1 = None" "replyToId msg2 = Some ''m-1''"
  "replyToId msg3 = None" "replyToId msg4 = Some ''m-3''"
  "isDeleted msg1 = True" "isDeleted msg2 = False" "isDeleted msg3 = False" "isDeleted msg4 = False"
  "msg_createdAt msg1 = 10" "msg_createdAt msg2 = 20" "msg_createdAt msg3 = 30"
  "msg_createdAt msg4 = 40"
  by (simp_all add: msg1_def msg2_def msg3_def msg4_def text_message_def)

lemmas example_fields =
  chat_db_tables user_fields conversation_fields member_fields message_fields

lemma wf_chat_db: "wf_db chat_db"
  by (simp add: wf_db_def example_fields)

subsection \<open>Soft deletion\<close>

lemma deleteMessage_tables:
  "users (snd (deleteMessage d mid uid)) = users d"
  "conversations (snd (deleteMessage d mid uid)) = conversations d"
  "conversationMembers (snd (deleteMessage d mid uid)) = conversationMembers d"
  "calls (snd (deleteMessage d mid uid)) = calls d"
  "length (messages (snd (deleteMessage d mid uid))) = length (messages d)"
  by (simp_all add: deleteMessage_def Let_def)

lemma deleteMessage_returns:
  "fst (deleteMessage d mid uid) \<longleftrightarrow>
     (\<exists>m \<in> set (messages d). msg_id m = mid \<and> senderId m = uid)"
  by (auto simp: deleteMessage_def Let_def filter_empty_conv)

lemma deleteMessage_row:
  assumes "i < length (messages d)"
  shows "messages (snd (deleteMessage d mid uid)) ! i =
           (if msg_id (messages d ! i) = mid \<and> senderId (messages d ! i) = uid
            then (messages d ! i)\<lparr>isDeleted := True\<rparr> else messages d ! i)"
  using assms by (simp add: deleteMessage_def Let_def)

text \<open>
  C4. \<open>deleteMessage messageId userId\<close> sets the soft-delete flag of the stored
  message with that id exactly when \<open>userId\<close> is its sender; it returns true exactly
  when some stored message has that id and that sender (so false for an unknown id and
  for a requester who is not the owner); every other row of \<open>messages\<close>, in particular
  every reply that references the message, and every other table is left as it was.
\<close>

theorem deleteMessage_owner_only:
  assumes "deleteMessage d messageId userId = (applied, d')"
  shows "applied = (\<exists>m \<in> set (messages d). msg_id m = messageId \<and> senderId m = userId) \<and>
         length (messages d') = length (messages d) \<and>
         (\<forall>i < length (messages d).
            msg_id (messages d ! i) = messageId \<longrightarrow>
              messages d' ! i =
                (if senderId (messages d ! i) = userId
                 then (messages d ! i)\<lparr>isDeleted := True\<rparr> else messages d ! i)) \<and>
         (\<forall>i < length (messages d).
            msg_id (messages d ! i) \<noteq> messageId \<longrightarrow> messages d' ! i = messages d ! i) \<and>
         users d' = users d \<and> conversations d' = conversations d \<and>
         conversationMembers d' = conversationMembers d \<and> calls d' = calls d"
proof -
  have a: "applied = fst (deleteMessage d messageId userId)"
    and d': "d' = snd (deleteMessage d messageId userId)"
    using assms by simp_all
  have "applied = (\<exists>m \<in> set (messages d). msg_id m = messageId \<and> senderId m = userId)"
    unfolding a by (rule deleteMessage_returns)
  moreover have "length (messages d') = length (messages d)"
    unfolding d' by (rule deleteMessage_tables)
  moreover have "\<forall>i < length (messages d).
           msg_id (messages d ! i) = messageId \<longrightarrow>
             messages d' ! i =
               (if senderId (messages d ! i) = userId
                then (messages d ! i)\<lparr>isDeleted := True\<rparr> else messages d ! i)"
    unfolding d' by (simp add: deleteMessage_row)
  moreover have "\<forall>i < length (messages d).
           msg_id (messages d ! i) \<noteq> messageId \<longrightarrow> messages d' ! i = messages d ! i"
    unfolding d' by (simp add: deleteMessage_row)
  moreover have "users d' = users d \<and> conversations d' = conversations d \<and>
         conversationMembers d' = conversationMembers d \<and> calls d' = calls d"
    unfolding d' by (simp add: deleteMessage_tables)
  ultimately show ?thesis by blast
qed

theorem deleteMessage_owner_only_witness:
  "deleteMessage chat_db ''m-3'' ''u-alice'' =
     (True, chat_db\<lparr>messages := (messages chat_db)
        [2 := text_message ''m-3'' ''c-ab'' ''u-alice'' ''lunch?'' None True 30]\<rparr>) \<and>
   messages (snd (deleteMessage chat_db ''m-3'' ''u-alice'')) ! 3 = messages chat_db ! 3 \<and>
   fst (deleteMessage chat_db ''m-3'' ''u-bob'') = False \<and>
   fst (deleteMessage chat_db ''m-9'' ''u-alice'') = False"
proof -
  have run: "deleteMessage chat_db ''m-3'' ''u-alice'' =
     (True, chat_db\<lparr>messages := (messages chat_db)
        [2 := text_message ''m-3'' ''c-ab'' ''u-alice'' ''lunch?'' None True 30]\<rparr>)"
    by (simp add: deleteMessage_def example_defs)
  have other: "deleteMessage chat_db ''m-3'' ''u-bob'' =
      (fst (deleteMessage chat_db ''m-3'' ''u-bob''), snd (deleteMessage chat_db ''m-3'' ''u-bob''))"
    and missing: "deleteMessage chat_db ''m-9'' ''u-alice'' =
      (fst (deleteMessage chat_db ''m-9'' ''u-alice''), snd (deleteMessage chat_db ''m-9'' ''u-alice''))"
    by simp_all
  have idx: "3 < length (messages chat_db)" "msg_id (messages chat_db ! 3) \<noteq> ''m-3''"
    by (simp_all add: example_defs)
  have nobody: "\<not> (\<exists>m \<in> set (messages chat_db). msg_id m = ''m-3'' \<and> senderId m = ''u-bob'')"
    "\<not> (\<exists>m \<in> set (messages chat_db). msg_id m = ''m-9'' \<and> senderId m = ''u-alice'')"
    by (simp_all add: example_defs)
  from deleteMessage_owner_only [OF run]
  have "\<forall>i < length (messages chat_db). msg_id (messages chat_db ! i) \<noteq> ''m-3'' \<longrightarrow>
          messages (snd (deleteMessage chat_db ''m-3'' ''u-alice'')) ! i = messages chat_db ! i"
    unfolding run snd_conv by blast
  with idx have "messages (snd (deleteMessage chat_db ''m-3'' ''u-alice'')) ! 3 = messages chat_db ! 3"
    by blast
  moreover from deleteMessage_owner_only [OF other] nobody(1)
  have "fst (deleteMessage chat_db ''m-3'' ''u-bob'') = False"
    by blast
  moreover from deleteMessage_owner_only [OF missing] nobody(2)
  have "fst (deleteMessage chat_db ''m-9'' ''u-alice'') = False"
    by blast
  ultimately show ?thesis using run by simp
qed

subsection \<open>Presence\<close>

lemma getUser_updateUserOnlineStatus:
  "getUser (updateUserOnlineStatus d now uid online) uid =
     map_option (\<lambda>u. if online then u\<lparr>isOnline := online\<rparr>
                       else u\<lparr>isOnline := online, lastSeen := Some now\<rparr>) (getUser d uid)"
proof -
  have "first_row (filter (\<lambda>u. user_id u = uid)
          (map (\<lambda>u. if user_id u = uid
                          then (if online then u\<lparr>isOnline := online\<rparr>
                                else u\<lparr>isOnline := online, lastSeen := Some now\<rparr>)
                          else u) us)) =
        map_option (\<lambda>u. if online then u\<lparr>isOnline := online\<rparr>
                       else u\<lparr>isOnline := online, lastSeen := Some now\<rparr>)
          (first_row (filter (\<lambda>u. user_id u = uid) us))" for us
    by (induction us) auto
  then show ?thesis by (simp add: getUser_def updateUserOnlineStatus_def)
qed

text \<open>
  C9. After a connection handshake that carries the identity of a stored user, a read
  of the user gives the online flag true and the socket is registered; after the
  close of that connection (and after any close handled for that user), a read gives
  the online flag false and the last-seen time equal to the time of the close, and
  the registration is gone.
\<close>

theorem presence_flag_follows_connection:
  assumes "uid \<noteq> []" and "getUser (store srv) uid = Some u"
  shows "getUser (store (onConnection srv t1 ws (Some uid))) uid = Some (u\<lparr>isOnline := True\<rparr>) \<and>
         connections (onConnection srv t1 ws (Some uid)) uid = Some ws \<and>
         getUser (store (onClose (onConnection srv t1 ws (Some uid)) t2 (Some uid))) uid =
           Some (u\<lparr>isOnline := False, lastSeen := Some t2\<rparr>) \<and>
         connections (onClose (onConnection srv t1 ws (Some uid)) t2 (Some uid)) uid = None \<and>
         (\<forall>srv' u'. getUser (store srv') uid = Some u' \<longrightarrow>
            getUser (store (onClose srv' t2 (Some uid))) uid =
              Some (u'\<lparr>isOnline := False, lastSeen := Some t2\<rparr>))"
  using assms
  by (simp add: onConnection_def onClose_def getUser_updateUserOnlineStatus)

theorem presence_flag_follows_connection_witness:
  "getUser (store (onConnection chat_server 50 open_socket (Some ''u-bob''))) ''u-bob'' =
     Some (bob\<lparr>isOnline := True\<rparr>) \<and>
   getUser (store (onClose (onConnection chat_server 50 open_socket (Some ''u-bob'')) 60
       (Some ''u-bob''))) ''u-bob'' = Some (bob\<lparr>isOnline := False, lastSeen := Some 60\<rparr>)"
proof -
  have "''u-bob'' \<noteq> []" by simp
  moreover have "getUser (store chat_server) ''u-bob'' = Some bob"
    by (simp add: chat_server_def getUser_def example_defs)
  ultimately show ?thesis
    using presence_flag_follows_connection [of "''u-bob''" chat_server bob 50 open_socket 60]
    by blast
qed

subsection \<open>Fan-out\<close>

lemma broadcast_open:
  "conns k = Some ws \<Longrightarrow> ws_readyState ws = OPEN \<Longrightarrow>
     broadcast e conns k = Some (ws\<lparr>ws_sent := ws_sent ws @ [e]\<rparr>)"
  by (simp add: broadcast_def)

lemma broadcast_not_open:
  "conns k = Some ws \<Longrightarrow> ws_readyState ws \<noteq> OPEN \<Longrightarrow> broadcast e conns k = Some ws"
  by (simp add: broadcast_def)

lemma broadcast_absent: "conns k = None \<Longrightarrow> broadcast e conns k = None"
  by (simp add: broadcast_def)

lemma createMessage_error_keeps: "createMessage d dr ins = (Inl e, d') \<Longrightarrow> d' = d"
  by (auto simp: createMessage_def Let_def split: if_splits)

lemma updateCallStatus_error_keeps: "updateCallStatus d callId st = (Inl e, d') \<Longrightarrow> d' = d"
  by (cases st) (simp_all add: updateCallStatus_def)

lemma createCall_error_keeps: "createCall d dr ins = (Inl e, d') \<Longrightarrow> d' = d"
  by (auto simp: createCall_def Let_def split: if_splits)

lemma deleteMessage_false_keeps:
  assumes "\<not> fst (deleteMessage d mid uid)"
  shows "snd (deleteMessage d mid uid) = d"
proof -
  from assms have "\<forall>m \<in> set (messages d). \<not> (msg_id m = mid \<and> senderId m = uid)"
    by (auto simp: deleteMessage_returns)
  then have "map (\<lambda>m. if msg_id m = mid \<and> senderId m = uid then m\<lparr>isDeleted := True\<rparr> else m)
      (messages d) = messages d"
    by (intro map_idI) auto
  then show ?thesis by (simp add: deleteMessage_def Let_def)
qed

lemma postMessage_fanout:
  assumes "postMessage srv reqUser dr cid body = (resp, srv')"
    and "store srv' \<noteq> store srv \<or> fst resp \<in> {200, 201}"
  shows "\<exists>e. ev_type e = ''new_message'' \<and>
           (\<exists>message sender. ev_data e = MessageData message sender \<and>
              resp = (201, JMessage message sender)) \<and>
           connections srv' = broadcast e (connections srv)"
proof (cases reqUser)
  case None
  with assms show ?thesis by (auto simp: postMessage_def)
next
  case (Some uid)
  let ?r = "createMessage (store srv) dr (body\<lparr>ins_conversationId := cid, ins_senderId := uid\<rparr>)"
  obtain res d1 where r: "?r = (res, d1)" by (cases ?r)
  show ?thesis
  proof (cases res)
    case (Inl e)
    with createMessage_error_keeps r have "d1 = store srv" by blast
    with r Inl assms Some show ?thesis by (auto simp: postMessage_def)
  next
    case (Inr ms)
    with r assms(1) Some have "connections srv' = broadcast
        \<lparr>ev_type = ''new_message'', ev_data = MessageData (fst ms) (snd ms)\<rparr> (connections srv)"
      and "resp = (201, JMessage (fst ms) (snd ms))"
      by (auto simp: postMessage_def split: prod.splits)
    then show ?thesis
      by (intro exI [of _ "\<lparr>ev_type = ''new_message'', ev_data = MessageData (fst ms) (snd ms)\<rparr>"]) simp
  qed
qed

lemma deleteMessageRoute_fanout:
  assumes "deleteMessageRoute srv reqUser mid = (resp, srv')"
    and "store srv' \<noteq> store srv \<or> fst resp \<in> {200, 201}"
  shows "\<exists>e. ev_type e = ''message_deleted'' \<and> ev_data e = MessageRef mid \<and>
           connections srv' = broadcast e (connections srv)"
proof (cases reqUser)
  case None
  with assms show ?thesis by (auto simp: deleteMessageRoute_def)
next
  case (Some uid)
  let ?r = "deleteMessage (store srv) mid uid"
  obtain success d1 where r: "?r = (success, d1)" by (cases ?r)
  show ?thesis
  proof (cases success)
    case True
    with r assms(1) Some have "connections srv' = broadcast
        \<lparr>ev_type = ''message_deleted'', ev_data = MessageRef mid\<rparr> (connections srv)"
      by (auto simp: deleteMessageRoute_def)
    then show ?thesis
      by (intro exI [of _ "\<lparr>ev_type = ''message_deleted'', ev_data = MessageRef mid\<rparr>"]) simp
  next
    case False
    with r have "\<not> fst ?r" by simp
    from deleteMessage_false_keeps [OF this] r have "d1 = store srv" by simp
    with r False assms Some show ?thesis
      by (auto simp: deleteMessageRoute_def)
  qed
qed

lemma postCall_fanout:
  assumes "postCall srv reqUser dr body = (resp, srv')"
    and "store srv' \<noteq> store srv \<or> fst resp \<in> {200, 201}"
  shows "\<exists>e. ev_type e = ''call_initiated'' \<and>
           (\<exists>newCall. ev_data e = CallData newCall \<and> resp = (201, JCall newCall)) \<and>
           connections srv' = broadcast e (connections srv)"
proof (cases reqUser)
  case None
  with assms show ?thesis by (auto simp: postCall_def)
next
  case (Some uid)
  let ?r = "createCall (store srv) dr (body\<lparr>insc_callerId := uid\<rparr>)"
  obtain res d1 where r: "?r = (res, d1)" by (cases ?r)
  show ?thesis
  proof (cases res)
    case (Inl e)
    with createCall_error_keeps r have "d1 = store srv" by blast
    with r Inl assms Some show ?thesis by (auto simp: postCall_def)
  next
    case (Inr c)
    with r assms(1) Some have "connections srv' = broadcast
        \<lparr>ev_type = ''call_initiated'', ev_data = CallData c\<rparr> (connections srv)"
      and "resp = (201, JCall c)"
      by (auto simp: postCall_def)
    then show ?thesis
      by (intro exI [of _ "\<lparr>ev_type = ''call_initiated'', ev_data = CallData c\<rparr>"]) simp
  qed
qed

lemma patchCall_fanout:
  assumes "patchCall srv reqUser now cid st = (resp, srv')"
    and "store srv' \<noteq> store srv \<or> fst resp \<in> {200, 201}"
  shows "\<exists>e. ev_type e = ''call_status_updated'' \<and> ev_data e = CallRef cid st \<and>
           connections srv' = broadcast e (connections srv)"
proof (cases reqUser)
  case None
  with assms show ?thesis by (auto simp: patchCall_def)
next
  case (Some uid)
  let ?r = "if st = Status ''ended'' then (Inr (), endCall (store srv) now cid)
            else updateCallStatus (store srv) cid st"
  obtain res d1 where r: "?r = (res, d1)" by (cases ?r)
  show ?thesis
  proof (cases res)
    case (Inl e)
    with r have "updateCallStatus (store srv) cid st = (Inl e, d1)"
      by (simp split: if_splits)
    then have "d1 = store srv" by (rule updateCallStatus_error_keeps)
    with r Inl assms Some show ?thesis by (auto simp: patchCall_def)
  next
    case (Inr u)
    with r assms(1) Some have "connections srv' = broadcast
        \<lparr>ev_type = ''call_status_updated'', ev_data = CallRef cid st\<rparr> (connections srv)"
      by (auto simp: patchCall_def)
    then show ?thesis
      by (intro exI [of _ "\<lparr>ev_type = ''call_status_updated'', ev_data = CallRef cid st\<rparr>"]) simp
  qed
qed

text \<open>Each handler does answer with success and broadcast, for the inputs it accepts.\<close>

lemma postMessage_sends:
  assumes "fst dr \<notin> set (map msg_id (messages (store srv)))"
    and "cid \<in> set (map conv_id (conversations (store srv)))"
    and "uid \<in> set (map user_id (users (store srv)))"
    and "case ins_fileSize mbody of None \<Rightarrow> True | Some n \<Rightarrow> int32_range n"
  shows "postMessage srv (Some uid) dr cid mbody =
     ((201, JMessage
         \<lparr>msg_id = fst dr, msg_conversationId = cid, senderId = uid,
          content = ins_content mbody, msg_type = or_default (Some ''text'') (ins_type mbody),
          fileUrl = ins_fileUrl mbody, fileName = ins_fileName mbody,
          fileSize = ins_fileSize mbody, replyToId = ins_replyToId mbody,
          isDeleted = False, msg_createdAt = snd dr\<rparr>
         (getUser (store srv) uid)),
      srv\<lparr>store := (store srv)\<lparr>messages := messages (store srv) @
             [\<lparr>msg_id = fst dr, msg_conversationId = cid, senderId = uid,
               content = ins_content mbody, msg_type = or_default (Some ''text'') (ins_type mbody),
               fileUrl = ins_fileUrl mbody, fileName = ins_fileName mbody,
               fileSize = ins_fileSize mbody, replyToId = ins_replyToId mbody,
               isDeleted = False, msg_createdAt = snd dr\<rparr>]\<rparr>,
          connections := broadcast
            \<lparr>ev_type = ''new_message'',
             ev_data = MessageData
               \<lparr>msg_id = fst dr, msg_conversationId = cid, senderId = uid,
                content = ins_content mbody, msg_type = or_default (Some ''text'') (ins_type mbody),
                fileUrl = ins_fileUrl mbody, fileName = ins_fileName mbody,
                fileSize = ins_fileSize mbody, replyToId = ins_replyToId mbody,
                isDeleted = False, msg_createdAt = snd dr\<rparr>
               (getUser (store srv) uid)\<rparr>
            (connections srv)\<rparr>)"
proof -
  from assms(4) have "\<not> (case ins_fileSize mbody of None \<Rightarrow> False | Some n \<Rightarrow> \<not> int32_range n)"
    by (cases "ins_fileSize mbody") simp_all
  with assms(1-3) show ?thesis
    by (simp add: postMessage_def createMessage_def Let_def)
qed

lemma deleteMessageRoute_sends:
  assumes "\<exists>m \<in> set (messages (store srv)). msg_id m = mid \<and> senderId m = uid"
  shows "deleteMessageRoute srv (Some uid) mid =
     ((200, JSuccess),
      srv\<lparr>store := snd (deleteMessage (store srv) mid uid),
          connections := broadcast \<lparr>ev_type = ''message_deleted'', ev_data = MessageRef mid\<rparr>
            (connections srv)\<rparr>)"
proof -
  from assms have "fst (deleteMessage (store srv) mid uid)"
    by (simp add: deleteMessage_returns)
  then show ?thesis
    by (cases "deleteMessage (store srv) mid uid") (simp add: deleteMessageRoute_def)
qed

lemma postCall_sends:
  assumes "fst dr \<notin> set (map call_id (calls (store srv)))"
    and "insc_conversationId cbody \<in> set (map conv_id (conversations (store srv)))"
    and "uid \<in> set (map user_id (users (store srv)))"
  shows "postCall srv (Some uid) dr cbody =
     ((201, JCall
         \<lparr>call_id = fst dr, call_conversationId = insc_conversationId cbody, callerId = uid,
          call_type = insc_type cbody, status = or_default (Some ''pending'') (insc_status cbody),
          startedAt = snd dr, endedAt = None\<rparr>),
      srv\<lparr>store := (store srv)\<lparr>calls := calls (store srv) @
             [\<lparr>call_id = fst dr, call_conversationId = insc_conversationId cbody, callerId = uid,
               call_type = insc_type cbody,
               status = or_default (Some ''pending'') (insc_status cbody),
               startedAt = snd dr, endedAt = None\<rparr>]\<rparr>,
          connections := broadcast
            \<lparr>ev_type = ''call_initiated'',
             ev_data = CallData
               \<lparr>call_id = fst dr, call_conversationId = insc_conversationId cbody, callerId = uid,
                call_type = insc_type cbody,
                status = or_default (Some ''pending'') (insc_status cbody),
                startedAt = snd dr, endedAt = None\<rparr>\<rparr>
            (connections srv)\<rparr>)"
  using assms by (simp add: postCall_def createCall_def Let_def)

lemma patchCall_sends:
  assumes "st \<noteq> NoStatus"
  shows "patchCall srv (Some uid) now callId st =
     ((200, JSuccess),
      srv\<lparr>store := (if st = Status ''ended'' then endCall (store srv) now callId
                     else snd (updateCallStatus (store srv) callId st)),
          connections := broadcast
            \<lparr>ev_type = ''call_status_updated'', ev_data = CallRef callId st\<rparr>
            (connections srv)\<rparr>)"
  using assms by (cases st) (simp_all add: patchCall_def updateCallStatus_def)

lemma chat_db_ids:
  "map user_id (users chat_db) = [''u-alice'', ''u-bob'', ''u-carol'']"
  "map conv_id (conversations chat_db) = [''c-ab'', ''c-team'']"
  "map member_id (conversationMembers chat_db) = [''mb-1'', ''mb-2'', ''mb-3'', ''mb-4'', ''mb-5'']"
  "map msg_id (messages chat_db) = [''m-1'', ''m-2'', ''m-3'', ''m-4'']"
  "map call_id (calls chat_db) = []"
  by (simp_all add: example_defs)

lemma fan_out_when_changed:
  assumes "(T, out) \<in> {(''new_message'', postMessage srv reqUser dr cid mbody),
                        (''message_deleted'', deleteMessageRoute srv reqUser mid),
                        (''call_initiated'', postCall srv reqUser dcall cbody),
                        (''call_status_updated'', patchCall srv reqUser now callId st)}"
    and "store (snd out) \<noteq> store srv \<or> fst (fst out) \<in> {200, 201}"
  shows "\<exists>e. ev_type e = T \<and>
           (T = ''new_message'' \<and>
              (\<exists>message sender. ev_data e = MessageData message sender \<and>
                 fst out = (201, JMessage message sender)) \<or>
            T = ''message_deleted'' \<and> ev_data e = MessageRef mid \<or>
            T = ''call_initiated'' \<and>
              (\<exists>newCall. ev_data e = CallData newCall \<and> fst out = (201, JCall newCall)) \<or>
            T = ''call_status_updated'' \<and> ev_data e = CallRef callId st) \<and>
           (\<forall>k ws. connections srv k = Some ws \<longrightarrow>
              connections (snd out) k =
                Some (if ws_readyState ws = OPEN then ws\<lparr>ws_sent := ws_sent ws @ [e]\<rparr> else ws)) \<and>
           (\<forall>k. connections srv k = None \<longrightarrow> connections (snd out) k = None)"
proof -
  let ?data = "\<lambda>e. T = ''new_message'' \<and>
              (\<exists>message sender. ev_data e = MessageData message sender \<and>
                 fst out = (201, JMessage message sender)) \<or>
            T = ''message_deleted'' \<and> ev_data e = MessageRef mid \<or>
            T = ''call_initiated'' \<and>
              (\<exists>newCall. ev_data e = CallData newCall \<and> fst out = (201, JCall newCall)) \<or>
            T = ''call_status_updated'' \<and> ev_data e = CallRef callId st"
  from assms(1) consider
      (msg) "T = ''new_message''" "postMessage srv reqUser dr cid mbody = (fst out, snd out)"
    | (del) "T = ''message_deleted''" "deleteMessageRoute srv reqUser mid = (fst out, snd out)"
    | (call) "T = ''call_initiated''" "postCall srv reqUser dcall cbody = (fst out, snd out)"
    | (upd) "T = ''call_status_updated''" "patchCall srv reqUser now callId st = (fst out, snd out)"
    unfolding insert_iff empty_iff prod.inject by (elim disjE conjE) simp_all
  then have "\<exists>e. ev_type e = T \<and> ?data e \<and>
      connections (snd out) = broadcast e (connections srv)"
  proof cases
    case msg
    from postMessage_fanout [OF msg(2) assms(2)] msg(1) show ?thesis by auto
  next
    case del
    from deleteMessageRoute_fanout [OF del(2) assms(2)] del(1) show ?thesis by auto
  next
    case call
    from postCall_fanout [OF call(2) assms(2)] call(1) show ?thesis by auto
  next
    case upd
    from patchCall_fanout [OF upd(2) assms(2)] upd(1) show ?thesis by auto
  qed
  then obtain e where e: "ev_type e = T" "?data e"
    "connections (snd out) = broadcast e (connections srv)"
    by blast
  have "\<forall>k ws. connections srv k = Some ws \<longrightarrow>
              connections (snd out) k =
                Some (if ws_readyState ws = OPEN then ws\<lparr>ws_sent := ws_sent ws @ [e]\<rparr> else ws)"
    unfolding e(3) by (simp add: broadcast_def)
  moreover have "\<forall>k. connections srv k = None \<longrightarrow> connections (snd out) k = None"
    unfolding e(3) by (simp add: broadcast_def)
  ultimately show ?thesis using e(1,2) by blast
qed

text \<open>
  C8. Each of the four mutating operations produces its envelope: a message sent by a
  stored user to a stored conversation (\<open>new_message\<close>, with the stored message and its
  sender), a message deleted by its sender (\<open>message_deleted\<close>, with the id), a call
  initiated by a stored user in a stored conversation (\<open>call_initiated\<close>, with the
  stored call) and a call status set to any given value (\<open>call_status_updated\<close>, with
  the id and the status) are answered with success, and the handler hands exactly
  that one envelope to the broadcast. Whenever one of the four handlers changed the
  stored state or answered with success, one envelope of its type was appended, once,
  to the frames of every socket of the presence map whose state is \<open>OPEN\<close>; the other
  sockets and the keys of the map are as before. No condition on conversation
  membership occurs.
\<close>

theorem fan_out_to_every_open_connection:
  "(fst dr \<notin> set (map msg_id (messages (store srv))) \<and>
    cid \<in> set (map conv_id (conversations (store srv))) \<and>
    uid \<in> set (map user_id (users (store srv))) \<and>
    (case ins_fileSize mbody of None \<Rightarrow> True | Some n \<Rightarrow> int32_range n) \<longrightarrow>
      postMessage srv (Some uid) dr cid mbody =
        ((201, JMessage
            \<lparr>msg_id = fst dr, msg_conversationId = cid, senderId = uid,
                content = ins_content mbody, msg_type = or_default (Some ''text'') (ins_type mbody),
                fileUrl = ins_fileUrl mbody, fileName = ins_fileName mbody,
                fileSize = ins_fileSize mbody, replyToId = ins_replyToId mbody,
                isDeleted = False, msg_createdAt = snd dr\<rparr>
            (getUser (store srv) uid)),
         srv\<lparr>store := (store srv)\<lparr>messages := messages (store srv) @
               [\<lparr>msg_id = fst dr, msg_conversationId = cid, senderId = uid,
                content = ins_content mbody, msg_type = or_default (Some ''text'') (ins_type mbody),
                fileUrl = ins_fileUrl mbody, fileName = ins_fileName mbody,
                fileSize = ins_fileSize mbody, replyToId = ins_replyToId mbody,
                isDeleted = False, msg_createdAt = snd dr\<rparr>]\<rparr>,
             connections := broadcast
               \<lparr>ev_type = ''new_message'',
                ev_data = MessageData
                  \<lparr>msg_id = fst dr, msg_conversationId = cid, senderId = uid,
                content = ins_content mbody, msg_type = or_default (Some ''text'') (ins_type mbody),
                fileUrl = ins_fileUrl mbody, fileName = ins_fileName mbody,
                fileSize = ins_fileSize mbody, replyToId = ins_replyToId mbody,
                isDeleted = False, msg_createdAt = snd dr\<rparr>
                  (getUser (store srv) uid)\<rparr>
               (connections srv)\<rparr>)) \<and>
   ((\<exists>m \<in> set (messages (store srv)). msg_id m = mid \<and> senderId m = uid) \<longrightarrow>
      deleteMessageRoute srv (Some uid) mid =
        ((200, JSuccess),
         srv\<lparr>store := snd (deleteMessage (store srv) mid uid),
             connections := broadcast
               \<lparr>ev_type = ''message_deleted'', ev_data = MessageRef mid\<rparr>
               (connections srv)\<rparr>)) \<and>
   (fst dcall \<notin> set (map call_id (calls (store srv))) \<and>
    insc_conversationId cbody \<in> set (map conv_id (conversations (store srv))) \<and>
    uid \<in> set (map user_id (users (store srv))) \<longrightarrow>
      postCall srv (Some uid) dcall cbody =
        ((201, JCall
            \<lparr>call_id = fst dcall, call_conversationId = insc_conversationId cbody,
                callerId = uid, call_type = insc_type cbody,
                status = or_default (Some ''pending'') (insc_status cbody),
                startedAt = snd dcall, endedAt = None\<rparr>),
         srv\<lparr>store := (store srv)\<lparr>calls := calls (store srv) @
               [\<lparr>call_id = fst dcall, call_conversationId = insc_conversationId cbody,
                callerId = uid, call_type = insc_type cbody,
                status = or_default (Some ''pending'') (insc_status cbody),
                startedAt = snd dcall, endedAt = None\<rparr>]\<rparr>,
             connections := broadcast
               \<lparr>ev_type = ''call_initiated'',
                ev_data = CallData
                  \<lparr>call_id = fst dcall, call_conversationId = insc_conversationId cbody,
                callerId = uid, call_type = insc_type cbody,
                status = or_default (Some ''pending'') (insc_status cbody),
                startedAt = snd dcall, endedAt = None\<rparr>\<rparr>
               (connections srv)\<rparr>)) \<and>
   (st \<noteq> NoStatus \<longrightarrow>
      patchCall srv (Some uid) now callId st =
        ((200, JSuccess),
         srv\<lparr>store := (if st = Status ''ended'' then endCall (store srv) now callId
                        else snd (updateCallStatus (store srv) callId st)),
             connections := broadcast
               \<lparr>ev_type = ''call_status_updated'', ev_data = CallRef callId st\<rparr>
               (connections srv)\<rparr>)) \<and>
   (\<forall>T out. (T, out) \<in> {(''new_message'', postMessage srv reqUser dr cid mbody),
                          (''message_deleted'', deleteMessageRoute srv reqUser mid),
                          (''call_initiated'', postCall srv reqUser dcall cbody),
                          (''call_status_updated'', patchCall srv reqUser now callId st)} \<and>
       (store (snd out) \<noteq> store srv \<or> fst (fst out) \<in> {200, 201}) \<longrightarrow>
       (\<exists>e. ev_type e = T \<and>
           (T = ''new_message'' \<and>
              (\<exists>message sender. ev_data e = MessageData message sender \<and>
                 fst out = (201, JMessage message sender)) \<or>
            T = ''message_deleted'' \<and> ev_data e = MessageRef mid \<or>
            T = ''call_initiated'' \<and>
              (\<exists>newCall. ev_data e = CallData newCall \<and> fst out = (201, JCall newCall)) \<or>
            T = ''call_status_updated'' \<and> ev_data e = CallRef callId st) \<and>
           (\<forall>k ws. connections srv k = Some ws \<longrightarrow>
              connections (snd out) k =
                Some (if ws_readyState ws = OPEN then ws\<lparr>ws_sent := ws_sent ws @ [e]\<rparr> else ws)) \<and>
           (\<forall>k. connections srv k = None \<longrightarrow> connections (snd out) k = None))) \<and>
   (\<forall>e conns k. broadcast e conns k =
       (case conns k of None \<Rightarrow> None
        | Some ws \<Rightarrow> Some (if ws_readyState ws = OPEN
                            then ws\<lparr>ws_sent := ws_sent ws @ [e]\<rparr> else ws)))"
proof (intro conjI)
  show "fst dr \<notin> set (map msg_id (messages (store srv))) \<and>
    cid \<in> set (map conv_id (conversations (store srv))) \<and>
    uid \<in> set (map user_id (users (store srv))) \<and>
    (case ins_fileSize mbody of None \<Rightarrow> True | Some n \<Rightarrow> int32_range n) \<longrightarrow>
      postMessage srv (Some uid) dr cid mbody =
        ((201, JMessage
            \<lparr>msg_id = fst dr, msg_conversationId = cid, senderId = uid,
                content = ins_content mbody, msg_type = or_default (Some ''text'') (ins_type mbody),
                fileUrl = ins_fileUrl mbody, fileName = ins_fileName mbody,
                fileSize = ins_fileSize mbody, replyToId = ins_replyToId mbody,
                isDeleted = False, msg_createdAt = snd dr\<rparr>
            (getUser (store srv) uid)),
         srv\<lparr>store := (store srv)\<lparr>messages := messages (store srv) @
               [\<lparr>msg_id = fst dr, msg_conversationId = cid, senderId = uid,
                content = ins_content mbody, msg_type = or_default (Some ''text'') (ins_type mbody),
                fileUrl = ins_fileUrl mbody, fileName = ins_fileName mbody,
                fileSize = ins_fileSize mbody, replyToId = ins_replyToId mbody,
                isDeleted = False, msg_createdAt = snd dr\<rparr>]\<rparr>,
             connections := broadcast
               \<lparr>ev_type = ''new_message'',
                ev_data = MessageData
                  \<lparr>msg_id = fst dr, msg_conversationId = cid, senderId = uid,
                content = ins_content mbody, msg_type = or_default (Some ''text'') (ins_type mbody),
                fileUrl = ins_fileUrl mbody, fileName = ins_fileName mbody,
                fileSize = ins_fileSize mbody, replyToId = ins_replyToId mbody,
                isDeleted = False, msg_createdAt = snd dr\<rparr>
                  (getUser (store srv) uid)\<rparr>
               (connections srv)\<rparr>)"
    using postMessage_sends [of dr srv cid uid mbody] by blast
  show "(\<exists>m \<in> set (messages (store srv)). msg_id m = mid \<and> senderId m = uid) \<longrightarrow>
      deleteMessageRoute srv (Some uid) mid =
        ((200, JSuccess),
         srv\<lparr>store := snd (deleteMessage (store srv) mid uid),
             connections := broadcast
               \<lparr>ev_type = ''message_deleted'', ev_data = MessageRef mid\<rparr>
               (connections srv)\<rparr>)"
    using deleteMessageRoute_sends [of srv mid uid] by blast
  show "fst dcall \<notin> set (map call_id (calls (store srv))) \<and>
    insc_conversationId cbody \<in> set (map conv_id (conversations (store srv))) \<and>
    uid \<in> set (map user_id (users (store srv))) \<longrightarrow>
      postCall srv (Some uid) dcall cbody =
        ((201, JCall
            \<lparr>call_id = fst dcall, call_conversationId = insc_conversationId cbody,
                callerId = uid, call_type = insc_type cbody,
                status = or_default (Some ''pending'') (insc_status cbody),
                startedAt = snd dcall, endedAt = None\<rparr>),
         srv\<lparr>store := (store srv)\<lparr>calls := calls (store srv) @
               [\<lparr>call_id = fst dcall, call_conversationId = insc_conversationId cbody,
                callerId = uid, call_type = insc_type cbody,
                status = or_default (Some ''pending'') (insc_status cbody),
                startedAt = snd dcall, endedAt = None\<rparr>]\<rparr>,
             connections := broadcast
               \<lparr>ev_type = ''call_initiated'',
                ev_data = CallData
                  \<lparr>call_id = fst dcall, call_conversationId = insc_conversationId cbody,
                callerId = uid, call_type = insc_type cbody,
                status = or_default (Some ''pending'') (insc_status cbody),
                startedAt = snd dcall, endedAt = None\<rparr>\<rparr>
               (connections srv)\<rparr>)"
    using postCall_sends [of dcall srv cbody uid] by blast
  show "st \<noteq> NoStatus \<longrightarrow>
      patchCall srv (Some uid) now callId st =
        ((200, JSuccess),
         srv\<lparr>store := (if st = Status ''ended'' then endCall (store srv) now callId
                        else snd (updateCallStatus (store srv) callId st)),
             connections := broadcast
               \<lparr>ev_type = ''call_status_updated'', ev_data = CallRef callId st\<rparr>
               (connections srv)\<rparr>)"
    using patchCall_sends [of st srv uid now callId] by blast
  show "\<forall>T out. (T, out) \<in> {(''new_message'', postMessage srv reqUser dr cid mbody),
                          (''message_deleted'', deleteMessageRoute srv reqUser mid),
                          (''call_initiated'', postCall srv reqUser dcall cbody),
                          (''call_status_updated'', patchCall srv reqUser now callId st)} \<and>
       (store (snd out) \<noteq> store srv \<or> fst (fst out) \<in> {200, 201}) \<longrightarrow>
       (\<exists>e. ev_type e = T \<and>
           (T = ''new_message'' \<and>
              (\<exists>message sender. ev_data e = MessageData message sender \<and>
                 fst out = (201, JMessage message sender)) \<or>
            T = ''message_deleted'' \<and> ev_data e = MessageRef mid \<or>
            T = ''call_initiated'' \<and>
              (\<exists>newCall. ev_data e = CallData newCall \<and> fst out = (201, JCall newCall)) \<or>
            T = ''call_status_updated'' \<and> ev_data e = CallRef callId st) \<and>
           (\<forall>k ws. connections srv k = Some ws \<longrightarrow>
              connections (snd out) k =
                Some (if ws_readyState ws = OPEN then ws\<lparr>ws_sent := ws_sent ws @ [e]\<rparr> else ws)) \<and>
           (\<forall>k. connections srv k = None \<longrightarrow> connections (snd out) k = None))"
  proof (intro allI impI, elim conjE)
    fix T out
    assume "(T, out) \<in> {(''new_message'', postMessage srv reqUser dr cid mbody),
                          (''message_deleted'', deleteMessageRoute srv reqUser mid),
                          (''call_initiated'', postCall srv reqUser dcall cbody),
                          (''call_status_updated'', patchCall srv reqUser now callId st)}"
      and "store (snd out) \<noteq> store srv \<or> fst (fst out) \<in> {200, 201}"
    then show "\<exists>e. ev_type e = T \<and>
           (T = ''new_message'' \<and>
              (\<exists>message sender. ev_data e = MessageData message sender \<and>
                 fst out = (201, JMessage message sender)) \<or>
            T = ''message_deleted'' \<and> ev_data e = MessageRef mid \<or>
            T = ''call_initiated'' \<and>
              (\<exists>newCall. ev_data e = CallData newCall \<and> fst out = (201, JCall newCall)) \<or>
            T = ''call_status_updated'' \<and> ev_data e = CallRef callId st) \<and>
           (\<forall>k ws. connections srv k = Some ws \<longrightarrow>
              connections (snd out) k =
                Some (if ws_readyState ws = OPEN then ws\<lparr>ws_sent := ws_sent ws @ [e]\<rparr> else ws)) \<and>
           (\<forall>k. connections srv k = None \<longrightarrow> connections (snd out) k = None)"
      by (rule fan_out_when_changed)
  qed
  show "\<forall>e conns k. broadcast e conns k =
       (case conns k of None \<Rightarrow> None
        | Some ws \<Rightarrow> Some (if ws_readyState ws = OPEN
                            then ws\<lparr>ws_sent := ws_sent ws @ [e]\<rparr> else ws))"
    by (simp add: broadcast_def split: option.splits)
qed

theorem fan_out_to_every_open_connection_witness:
  "fst (postMessage fan_server (Some ''u-alice'') (''m-5'', 50) ''c-ab'' hello_body) =
     (201, JMessage (text_message ''m-5'' ''c-ab'' ''u-alice'' ''hi'' None False 50) (Some alice)) \<and>
   ''u-carol'' \<notin> set (map member_userId
      (filter (\<lambda>m. member_conversationId m = ''c-ab'') (conversationMembers chat_db))) \<and>
   connections (snd (postMessage fan_server (Some ''u-alice'') (''m-5'', 50) ''c-ab'' hello_body))
     ''u-carol'' =
       Some (open_socket\<lparr>ws_sent :=
         [\<lparr>ev_type = ''new_message'',
           ev_data = MessageData (text_message ''m-5'' ''c-ab'' ''u-alice'' ''hi'' None False 50)
                       (Some alice)\<rparr>]\<rparr>) \<and>
   connections (snd (postMessage fan_server (Some ''u-alice'') (''m-5'', 50) ''c-ab'' hello_body))
     ''u-bob'' = Some \<lparr>ws_readyState = CLOSING, ws_sent = []\<rparr> \<and>
   fst (deleteMessageRoute fan_server (Some ''u-alice'') ''m-3'') = (200, JSuccess) \<and>
   connections (snd (deleteMessageRoute fan_server (Some ''u-alice'') ''m-3'')) ''u-carol'' =
       Some (open_socket\<lparr>ws_sent :=
         [\<lparr>ev_type = ''message_deleted'', ev_data = MessageRef ''m-3''\<rparr>]\<rparr>) \<and>
   fst (postCall fan_server (Some ''u-alice'') (''call-2'', 70) voice_body) =
     (201, JCall (call1\<lparr>call_id := ''call-2'', callerId := ''u-alice'', startedAt := 70\<rparr>)) \<and>
   connections (snd (postCall fan_server (Some ''u-alice'') (''call-2'', 70) voice_body))
     ''u-carol'' =
       Some (open_socket\<lparr>ws_sent :=
         [\<lparr>ev_type = ''call_initiated'',
           ev_data = CallData
             (call1\<lparr>call_id := ''call-2'', callerId := ''u-alice'', startedAt := 70\<rparr>)\<rparr>]\<rparr>) \<and>
   fst (patchCall call_server (Some ''u-alice'') 80 ''call-1'' (Status ''active'')) =
     (200, JSuccess) \<and>
   calls (store (snd (patchCall call_server (Some ''u-alice'') 80 ''call-1'' (Status ''active'')))) =
     [call1\<lparr>status := Some ''active''\<rparr>] \<and>
   connections (snd (patchCall call_server (Some ''u-alice'') 80 ''call-1'' (Status ''active'')))
     ''u-carol'' =
       Some (open_socket\<lparr>ws_sent :=
         [\<lparr>ev_type = ''call_status_updated'',
           ev_data = CallRef ''call-1'' (Status ''active'')\<rparr>]\<rparr>)"
proof -
  note fan = fan_out_to_every_open_connection
    [where srv = fan_server and uid = "''u-alice''" and dr = "(''m-5'', 50)" and cid = "''c-ab''"
       and mbody = hello_body and mid = "''m-3''" and dcall = "(''call-2'', 70)"
       and cbody = voice_body]
  note patch = fan_out_to_every_open_connection
    [where srv = call_server and uid = "''u-alice''" and now = 80 and callId = "''call-1''"
       and st = "Status ''active''"]
  note fan_message = fan [THEN conjunct1, THEN mp]
    and fan_delete = fan [THEN conjunct2, THEN conjunct1, THEN mp]
    and fan_call = fan [THEN conjunct2, THEN conjunct2, THEN conjunct1, THEN mp]
    and fan_patch = patch [THEN conjunct2, THEN conjunct2, THEN conjunct2, THEN conjunct1, THEN mp]
    and fan_deliver = fan [THEN conjunct2, THEN conjunct2, THEN conjunct2, THEN conjunct2,
      THEN conjunct2, THEN spec, THEN spec, THEN spec]
  have db: "store fan_server = chat_db" by (simp add: fan_server_def)
  have carol: "connections fan_server ''u-carol'' = Some open_socket"
    and bob: "connections fan_server ''u-bob'' = Some \<lparr>ws_readyState = CLOSING, ws_sent = []\<rparr>"
    and carol': "connections call_server ''u-carol'' = Some open_socket"
    by (simp_all add: fan_server_def call_server_def)
  have sender: "getUser chat_db ''u-alice'' = Some alice"
    by (simp add: getUser_def example_fields)
  have outsider: "''u-carol'' \<notin> set (map member_userId
      (filter (\<lambda>m. member_conversationId m = ''c-ab'') (conversationMembers chat_db)))"
    by (simp add: example_fields)

  have "fst (''m-5'', 50::nat) \<notin> set (map msg_id (messages (store fan_server))) \<and>
    ''c-ab'' \<in> set (map conv_id (conversations (store fan_server))) \<and>
    ''u-alice'' \<in> set (map user_id (users (store fan_server))) \<and>
    (case ins_fileSize hello_body of None \<Rightarrow> True | Some n \<Rightarrow> int32_range n)"
    by (simp add: db chat_db_ids hello_body_def)
  from fan_message [OF this] have sent: "postMessage fan_server (Some ''u-alice'') (''m-5'', 50) ''c-ab'' hello_body =
      ((201, JMessage (text_message ''m-5'' ''c-ab'' ''u-alice'' ''hi'' None False 50) (Some alice)),
       fan_server\<lparr>store := chat_db\<lparr>messages := messages chat_db @
            [text_message ''m-5'' ''c-ab'' ''u-alice'' ''hi'' None False 50]\<rparr>,
          connections := broadcast
            \<lparr>ev_type = ''new_message'',
             ev_data = MessageData (text_message ''m-5'' ''c-ab'' ''u-alice'' ''hi'' None False 50)
                         (Some alice)\<rparr>
            (connections fan_server)\<rparr>)"
    by (simp add: db sender hello_body_def text_message_def)

  have "\<exists>m \<in> set (messages (store fan_server)). msg_id m = ''m-3'' \<and> senderId m = ''u-alice''"
    by (simp add: db example_fields)
  from fan_delete [OF this] have deleted: "deleteMessageRoute fan_server (Some ''u-alice'') ''m-3'' =
      ((200, JSuccess),
       fan_server\<lparr>store := snd (deleteMessage (store fan_server) ''m-3'' ''u-alice''),
          connections := broadcast \<lparr>ev_type = ''message_deleted'', ev_data = MessageRef ''m-3''\<rparr>
            (connections fan_server)\<rparr>)" .

  have "fst (''call-2'', 70::nat) \<notin> set (map call_id (calls (store fan_server))) \<and>
    insc_conversationId voice_body \<in> set (map conv_id (conversations (store fan_server))) \<and>
    ''u-alice'' \<in> set (map user_id (users (store fan_server)))"
    by (simp add: db chat_db_ids voice_body_def)
  from fan_call [OF this] have called: "postCall fan_server (Some ''u-alice'') (''call-2'', 70) voice_body =
      ((201, JCall (call1\<lparr>call_id := ''call-2'', callerId := ''u-alice'', startedAt := 70\<rparr>)),
       fan_server\<lparr>store := chat_db\<lparr>calls := calls chat_db @
            [call1\<lparr>call_id := ''call-2'', callerId := ''u-alice'', startedAt := 70\<rparr>]\<rparr>,
          connections := broadcast
            \<lparr>ev_type = ''call_initiated'',
             ev_data = CallData
               (call1\<lparr>call_id := ''call-2'', callerId := ''u-alice'', startedAt := 70\<rparr>)\<rparr>
            (connections fan_server)\<rparr>)"
    by (simp add: db voice_body_def call1_def)

  have "Status ''active'' \<noteq> NoStatus" by simp
  from fan_patch [OF this] have patched: "patchCall call_server (Some ''u-alice'') 80 ''call-1'' (Status ''active'') =
      ((200, JSuccess),
       call_server\<lparr>store := snd (updateCallStatus (store call_server) ''call-1'' (Status ''active'')),
          connections := broadcast
            \<lparr>ev_type = ''call_status_updated'', ev_data = CallRef ''call-1'' (Status ''active'')\<rparr>
            (connections call_server)\<rparr>)"
    by simp
  have updated: "calls (snd (updateCallStatus (store call_server) ''call-1'' (Status ''active''))) =
      [call1\<lparr>status := Some ''active''\<rparr>]"
    by (simp add: updateCallStatus_def call_server_def call1_def)

  have socket: "ws_readyState open_socket = OPEN" "ws_sent open_socket = []"
    by (simp_all add: open_socket_def)
  show ?thesis
    unfolding sent deleted called patched fst_conv snd_conv
    using outsider by (simp add: fan_deliver carol bob carol' updated socket)
qed

subsection \<open>Message history\<close>

lemma unique_user_row:
  assumes "distinct (map user_id us)" and "k \<in> set (map user_id us)"
  shows "filter (\<lambda>u. k = user_id u) us = [the (first_row (filter (\<lambda>u. user_id u = k) us))]"
  using assms
proof (induction us)
  case Nil
  then show ?case by simp
next
  case (Cons u us)
  show ?case
  proof (cases "user_id u = k")
    case True
    from Cons.prems have "user_id u \<notin> set (map user_id us)" by simp
    with True have "\<forall>v \<in> set us. user_id v \<noteq> k" by (metis image_eqI list.set_map)
    then have "filter (\<lambda>u. k = user_id u) us = []" by (auto simp: filter_empty_conv)
    with True show ?thesis by simp
  next
    case False
    with Cons show ?thesis by auto
  qed
qed

lemma inner_join_single:
  assumes "\<forall>x \<in> set xs. filter (on x) ys = [f x]"
  shows "inner_join xs ys on = map (\<lambda>x. (x, f x)) xs"
  using assms unfolding inner_join_def by (induction xs) auto

lemma wf_db_messages:
  assumes "wf_db d"
  shows "distinct (map user_id (users d))" "distinct (map msg_id (messages d))"
    "\<forall>m \<in> set (messages d). senderId m \<in> set (map user_id (users d))"
    "\<forall>m \<in> set (messages d). msg_id m \<noteq> []"
  using assms by (simp_all add: wf_db_def list_all_iff)

lemma joined_senders:
  assumes "wf_db d"
  shows "joined_with_sender d = map (\<lambda>m. (m, the (getUser d (senderId m)))) (messages d)"
  unfolding joined_with_sender_def
proof (rule inner_join_single, rule ballI)
  fix m assume "m \<in> set (messages d)"
  with wf_db_messages [OF assms] have "senderId m \<in> set (map user_id (users d))" by blast
  from unique_user_row [OF wf_db_messages(1) [OF assms] this]
  show "filter (\<lambda>u. senderId m = user_id u) (users d) = [the (getUser d (senderId m))]"
    by (simp add: getUser_def)
qed

lemma getUser_sender:
  assumes "wf_db d" and "m \<in> set (messages d)"
  shows "getUser d (senderId m) = Some (the (getUser d (senderId m)))"
proof -
  from wf_db_messages [OF assms(1)] assms(2)
  have "senderId m \<in> set (map user_id (users d))" by blast
  then obtain u where "u \<in> set (users d)" "user_id u = senderId m" by auto
  then have "filter (\<lambda>u. user_id u = senderId m) (users d) \<noteq> []"
    by (auto simp: filter_empty_conv)
  then show ?thesis
    by (cases "filter (\<lambda>u. user_id u = senderId m) (users d)") (simp_all add: getUser_def)
qed

lemma order_desc_createdAt_mset: "mset (order_desc_createdAt rows) = mset rows"
  by (simp add: order_desc_createdAt_def)

lemma order_desc_createdAt_sorted:
  "sorted_wrt (\<lambda>a b. msg_createdAt (fst a) \<ge> msg_createdAt (fst b)) (order_desc_createdAt rows)"
proof -
  have "sorted (map (\<lambda>r. - int (msg_createdAt (fst r))) (order_desc_createdAt rows))"
    unfolding order_desc_createdAt_def by (rule sorted_sort_key)
  then show ?thesis by (simp add: sorted_map)
qed

lemma history_rows:
  "map (\<lambda>h. (hm_message h, hm_sender h)) (getConversationMessages d cid limit offset) =
     rev (messageList d cid (case limit of None \<Rightarrow> 50 | Some l \<Rightarrow> l)
            (case offset of None \<Rightarrow> 0 | Some k \<Rightarrow> k))"
  by (simp add: getConversationMessages_def Let_def rev_map split_def comp_def)

lemma history_element:
  assumes "h \<in> set (getConversationMessages d cid limit offset)"
  obtains m u where
    "(m, u) \<in> set (messageList d cid (case limit of None \<Rightarrow> 50 | Some l \<Rightarrow> l)
        (case offset of None \<Rightarrow> 0 | Some k \<Rightarrow> k))"
    "hm_message h = m" "hm_sender h = u"
    "hm_replyTo h = (case truthy_string (replyToId m) of None \<Rightarrow> None
       | Some r \<Rightarrow> js_Map (map (\<lambda>r. (msg_id (fst r), r))
           (replyMessages d (replyIds (messageList d cid
              (case limit of None \<Rightarrow> 50 | Some l \<Rightarrow> l)
              (case offset of None \<Rightarrow> 0 | Some k \<Rightarrow> k))))) r)"
  using assms by (auto simp: getConversationMessages_def Let_def)

lemma messageList_subset:
  "set (messageList d cid lim off) \<subseteq>
     {r \<in> set (joined_with_sender d). msg_conversationId (fst r) = cid \<and> \<not> isDeleted (fst r)}"
proof -
  have "set (messageList d cid lim off) \<subseteq> set (order_desc_createdAt
       (filter (\<lambda>(m, u). msg_conversationId m = cid \<and> isDeleted m = False)
          (joined_with_sender d)))"
    unfolding messageList_def by (meson set_take_subset set_drop_subset subset_trans)
  also have "\<dots> = set (filter (\<lambda>(m, u). msg_conversationId m = cid \<and> isDeleted m = False)
          (joined_with_sender d))"
    by (simp add: order_desc_createdAt_def)
  finally show ?thesis by auto
qed

lemma joined_row:
  assumes "wf_db d" and "r \<in> set (joined_with_sender d)"
  shows "fst r \<in> set (messages d)" "getUser d (senderId (fst r)) = Some (snd r)"
proof -
  from assms obtain m where m: "m \<in> set (messages d)" "r = (m, the (getUser d (senderId m)))"
    by (auto simp: joined_senders)
  then show "fst r \<in> set (messages d)" by simp
  from getUser_sender [OF assms(1) m(1)] m(2)
  show "getUser d (senderId (fst r)) = Some (snd r)" by simp
qed

lemma live_rows_mset:
  assumes "wf_db d"
  shows "mset (map fst (filter (\<lambda>(m, u). msg_conversationId m = cid \<and> isDeleted m = False)
            (joined_with_sender d))) =
         mset (filter (\<lambda>m. msg_conversationId m = cid \<and> \<not> isDeleted m) (messages d))"
proof -
  have "map fst (filter (\<lambda>(m, u). msg_conversationId m = cid \<and> isDeleted m = False)
            (map (\<lambda>m. (m, f m)) ms)) =
        filter (\<lambda>m. msg_conversationId m = cid \<and> \<not> isDeleted m) ms" for f :: "message \<Rightarrow> user" and ms
    by (induction ms) auto
  then show ?thesis by (simp add: joined_senders [OF assms])
qed

text \<open>
  C5. Let \<open>newest_first\<close> be the messages of the conversation whose soft-delete flag is
  unset, each with the profile of its sender, ordered by creation time, newest first.
  The history is \<open>limit\<close> rows of it after skipping \<open>offset\<close>, reversed: it holds only
  such messages, each with its sender, oldest first. Without arguments the limit is 50
  and the offset 0, in the storage method and in the route.
\<close>

theorem history_is_newest_page_oldest_first:
  assumes "wf_db d"
  shows "(\<exists>newest_first.
            mset (map fst newest_first) =
              mset (filter (\<lambda>m. msg_conversationId m = cid \<and> \<not> isDeleted m) (messages d)) \<and>
            (\<forall>r \<in> set newest_first. getUser d (senderId (fst r)) = Some (snd r)) \<and>
            sorted_wrt (\<lambda>a b. msg_createdAt (fst a) \<ge> msg_createdAt (fst b)) newest_first \<and>
            map (\<lambda>h. (hm_message h, hm_sender h))
                (getConversationMessages d cid (Some limit) (Some offset)) =
              rev (take limit (drop offset newest_first))) \<and>
         (\<forall>h \<in> set (getConversationMessages d cid (Some limit) (Some offset)).
            hm_message h \<in> set (messages d) \<and> msg_conversationId (hm_message h) = cid \<and>
            \<not> isDeleted (hm_message h) \<and>
            getUser d (senderId (hm_message h)) = Some (hm_sender h)) \<and>
         sorted_wrt (\<lambda>a b. msg_createdAt (hm_message a) \<le> msg_createdAt (hm_message b))
            (getConversationMessages d cid (Some limit) (Some offset)) \<and>
         getConversationMessages d cid None None =
            getConversationMessages d cid (Some 50) (Some 0) \<and>
         getMessages parseInt srv (Some uid) cid None None =
            (200, JMessages (getConversationMessages (store srv) cid (Some 50) (Some 0)))"
proof -
  let ?live = "filter (\<lambda>(m, u). msg_conversationId m = cid \<and> isDeleted m = False)
      (joined_with_sender d)"
  let ?newest = "order_desc_createdAt ?live"
  let ?result = "getConversationMessages d cid (Some limit) (Some offset)"
  have page: "map (\<lambda>h. (hm_message h, hm_sender h)) ?result = rev (take limit (drop offset ?newest))"
    by (simp add: history_rows messageList_def)
  have "mset (map fst ?newest) =
      mset (filter (\<lambda>m. msg_conversationId m = cid \<and> \<not> isDeleted m) (messages d))"
  proof -
    have "mset (map fst ?newest) = image_mset fst (mset ?newest)" by simp
    also have "\<dots> = image_mset fst (mset ?live)" by (simp only: order_desc_createdAt_mset)
    also have "\<dots> = mset (map fst ?live)" by simp
    finally show ?thesis by (simp only: live_rows_mset [OF assms])
  qed
  moreover have "\<forall>r \<in> set ?newest. getUser d (senderId (fst r)) = Some (snd r)"
  proof
    fix r assume "r \<in> set ?newest"
    then have "r \<in> set (joined_with_sender d)" by (simp add: order_desc_createdAt_def)
    then show "getUser d (senderId (fst r)) = Some (snd r)" by (rule joined_row [OF assms])
  qed
  moreover note order_desc_createdAt_sorted [of ?live] page
  ultimately have first: "\<exists>newest_first.
            mset (map fst newest_first) =
              mset (filter (\<lambda>m. msg_conversationId m = cid \<and> \<not> isDeleted m) (messages d)) \<and>
            (\<forall>r \<in> set newest_first. getUser d (senderId (fst r)) = Some (snd r)) \<and>
            sorted_wrt (\<lambda>a b. msg_createdAt (fst a) \<ge> msg_createdAt (fst b)) newest_first \<and>
            map (\<lambda>h. (hm_message h, hm_sender h)) ?result = rev (take limit (drop offset newest_first))"
    by blast
  have second: "\<forall>h \<in> set ?result.
            hm_message h \<in> set (messages d) \<and> msg_conversationId (hm_message h) = cid \<and>
            \<not> isDeleted (hm_message h) \<and>
            getUser d (senderId (hm_message h)) = Some (hm_sender h)"
  proof
    fix h assume "h \<in> set ?result"
    then obtain m u where mu: "(m, u) \<in> set (messageList d cid limit offset)"
      "hm_message h = m" "hm_sender h = u"
      by (rule history_element) simp_all
    with messageList_subset [of d cid limit offset]
    have r: "(m, u) \<in> set (joined_with_sender d)" "msg_conversationId m = cid" "\<not> isDeleted m"
      by auto
    from joined_row [OF assms r(1)] r(2,3) mu(2,3)
    show "hm_message h \<in> set (messages d) \<and> msg_conversationId (hm_message h) = cid \<and>
            \<not> isDeleted (hm_message h) \<and>
            getUser d (senderId (hm_message h)) = Some (hm_sender h)"
      by simp
  qed
  have "sorted_wrt (\<lambda>a b. msg_createdAt (fst a) \<le> msg_createdAt (fst b))
      (rev (take limit (drop offset ?newest)))"
    using order_desc_createdAt_sorted [of ?live]
    by (simp add: sorted_wrt_rev)
  then have "sorted_wrt (\<lambda>a b. msg_createdAt (fst a) \<le> msg_createdAt (fst b))
      (map (\<lambda>h. (hm_message h, hm_sender h)) ?result)"
    by (simp only: page)
  then have third: "sorted_wrt (\<lambda>a b. msg_createdAt (hm_message a) \<le> msg_createdAt (hm_message b))
      ?result"
    by (simp add: sorted_wrt_map)
  have fourth: "getConversationMessages d cid None None =
            getConversationMessages d cid (Some 50) (Some 0)"
    by (simp add: getConversationMessages_def)
  have fifth: "getMessages parseInt srv (Some uid) cid None None =
            (200, JMessages (getConversationMessages (store srv) cid (Some 50) (Some 0)))"
    by (simp add: getMessages_def query_number_def)
  from first second third fourth fifth show ?thesis by (intro conjI)
qed

lemma chat_db_joined:
  "joined_with_sender chat_db = [(msg1, alice), (msg2, bob), (msg3, alice), (msg4, bob)]"
  by (simp add: joined_with_sender_def inner_join_def example_fields)

lemma chat_db_newest_two: "messageList chat_db ''c-ab'' 2 0 = [(msg4, bob), (msg3, alice)]"
  by (simp add: messageList_def chat_db_joined order_desc_createdAt_def example_fields)

lemma chat_db_replies:
  "replyMessages chat_db (replyIds [(msg4, bob), (msg3, alice)]) = [(msg3, alice)]"
  by (simp add: replyMessages_def replyIds_def chat_db_joined example_fields)

lemma chat_db_history_two:
  "getConversationMessages chat_db ''c-ab'' (Some 2) (Some 0) =
     [\<lparr>hm_message = msg3, hm_sender = alice, hm_replyTo = None\<rparr>,
      \<lparr>hm_message = msg4, hm_sender = bob, hm_replyTo = Some (msg3, alice)\<rparr>]"
  by (simp add: getConversationMessages_def chat_db_newest_two chat_db_replies js_Map_def
      example_fields)

theorem history_is_newest_page_oldest_first_witness:
  "wf_db chat_db \<and>
   map hm_message (getConversationMessages chat_db ''c-ab'' (Some 2) (Some 0)) = [msg3, msg4] \<and>
   map hm_sender (getConversationMessages chat_db ''c-ab'' (Some 2) (Some 0)) = [alice, bob] \<and>
   sorted_wrt (\<lambda>a b. msg_createdAt (hm_message a) \<le> msg_createdAt (hm_message b))
      (getConversationMessages chat_db ''c-ab'' (Some 2) (Some 0)) \<and>
   getConversationMessages chat_db ''c-ab'' None None =
      getConversationMessages chat_db ''c-ab'' (Some 50) (Some 0)"
  using history_is_newest_page_oldest_first [OF wf_chat_db, of "''c-ab''" 2 0] wf_chat_db
  by (simp add: chat_db_history_two)

lemma js_Map_distinct:
  assumes "distinct (map fst pairs)" and "(k, v) \<in> set pairs"
  shows "js_Map pairs k = Some v"
proof -
  from assms(1) have "distinct (map fst (rev pairs))" by (simp add: rev_map [symmetric])
  moreover from assms(2) have "(k, v) \<in> set (rev pairs)" by simp
  ultimately show ?thesis unfolding js_Map_def by (rule map_of_is_SomeI)
qed

lemma replyIds_member:
  assumes "(m, u) \<in> set rows" and "replyToId m = Some r" and "r \<noteq> []"
  shows "r \<in> set (replyIds rows)"
  using assms by (force simp: replyIds_def)

lemma reply_keys_distinct:
  assumes "wf_db d"
  shows "distinct (map fst (map (\<lambda>r. (msg_id (fst r), r)) (replyMessages d ids)))"
proof -
  have "map fst (map (\<lambda>r. (msg_id (fst r), r))
          (filter (\<lambda>(m, u). msg_id m \<in> set ids) (map (\<lambda>m. (m, f m)) ms))) =
        map msg_id (filter (\<lambda>m. msg_id m \<in> set ids) ms)" for f :: "message \<Rightarrow> user" and ms
    by (induction ms) auto
  moreover have "distinct (map msg_id (filter (\<lambda>m. msg_id m \<in> set ids) (messages d)))"
    using wf_db_messages(2) [OF assms] by (rule distinct_map_filter)
  ultimately show ?thesis
    by (simp add: replyMessages_def joined_senders [OF assms] del: map_map)
qed

text \<open>
  C3. No message whose soft-delete flag is set is an element of the history. Yet
  when an element of the history carries a reply reference to a stored message whose
  flag is set, its reply target is that stored message together with its sender.
\<close>

theorem deleted_hidden_but_quoted:
  assumes "wf_db d"
  shows "(\<forall>m. isDeleted m \<longrightarrow>
            m \<notin> set (map hm_message (getConversationMessages d cid limit offset))) \<and>
         (\<forall>h \<in> set (getConversationMessages d cid limit offset).
            \<forall>t \<in> set (messages d).
              isDeleted t \<and> replyToId (hm_message h) = Some (msg_id t) \<longrightarrow>
                (\<exists>s. getUser d (senderId t) = Some s \<and> hm_replyTo h = Some (t, s)))"
proof (intro conjI allI impI ballI)
  fix m :: message assume del: "isDeleted m"
  show "m \<notin> set (map hm_message (getConversationMessages d cid limit offset))"
  proof
    assume "m \<in> set (map hm_message (getConversationMessages d cid limit offset))"
    then obtain h where h: "h \<in> set (getConversationMessages d cid limit offset)"
      "hm_message h = m" by auto
    from h(1) obtain m' u where
      "(m', u) \<in> set (messageList d cid (case limit of None \<Rightarrow> 50 | Some l \<Rightarrow> l)
          (case offset of None \<Rightarrow> 0 | Some k \<Rightarrow> k))" "hm_message h = m'"
      by (rule history_element)
    with messageList_subset have "\<not> isDeleted (hm_message h)" by fastforce
    with h(2) del show False by simp
  qed
next
  fix h t
  assume h: "h \<in> set (getConversationMessages d cid limit offset)"
    and t: "t \<in> set (messages d)"
    and ref: "isDeleted t \<and> replyToId (hm_message h) = Some (msg_id t)"
  let ?rows = "messageList d cid (case limit of None \<Rightarrow> 50 | Some l \<Rightarrow> l)
          (case offset of None \<Rightarrow> 0 | Some k \<Rightarrow> k)"
  let ?s = "the (getUser d (senderId t))"
  from h obtain m u where mu: "(m, u) \<in> set ?rows" "hm_message h = m"
    and target: "hm_replyTo h = (case truthy_string (replyToId m) of None \<Rightarrow> None
       | Some r \<Rightarrow> js_Map (map (\<lambda>r. (msg_id (fst r), r)) (replyMessages d (replyIds ?rows))) r)"
    by (rule history_element)
  from wf_db_messages(4) [OF assms] t have nonempty: "msg_id t \<noteq> []" by blast
  from ref mu(2) have reply: "replyToId m = Some (msg_id t)" by simp
  with nonempty have truthy: "truthy_string (replyToId m) = Some (msg_id t)" by simp
  from replyIds_member [OF mu(1) reply nonempty] have listed: "msg_id t \<in> set (replyIds ?rows)" .
  then have "length (replyIds ?rows) > 0" by (cases "replyIds ?rows") simp_all
  moreover from t have "(t, ?s) \<in> set (joined_with_sender d)"
    by (simp add: joined_senders [OF assms] image_iff)
  ultimately have "(t, ?s) \<in> set (replyMessages d (replyIds ?rows))"
    using listed by (simp add: replyMessages_def)
  then have "(msg_id t, (t, ?s)) \<in> set (map (\<lambda>r. (msg_id (fst r), r))
      (replyMessages d (replyIds ?rows)))"
    by force
  from js_Map_distinct [OF reply_keys_distinct [OF assms] this] target truthy
  have "hm_replyTo h = Some (t, ?s)" by simp
  moreover from getUser_sender [OF assms t] have "getUser d (senderId t) = Some ?s" .
  ultimately show "\<exists>s. getUser d (senderId t) = Some s \<and> hm_replyTo h = Some (t, s)" by blast
qed

lemma chat_db_history_all:
  "getConversationMessages chat_db ''c-ab'' None None =
     [\<lparr>hm_message = msg2, hm_sender = bob, hm_replyTo = Some (msg1, alice)\<rparr>,
      \<lparr>hm_message = msg3, hm_sender = alice, hm_replyTo = None\<rparr>,
      \<lparr>hm_message = msg4, hm_sender = bob, hm_replyTo = Some (msg3, alice)\<rparr>]"
proof -
  have rows: "messageList chat_db ''c-ab'' 50 0 = [(msg4, bob), (msg3, alice), (msg2, bob)]"
    by (simp add: messageList_def chat_db_joined order_desc_createdAt_def example_fields)
  have "replyMessages chat_db (replyIds [(msg4, bob), (msg3, alice), (msg2, bob)]) =
      [(msg1, alice), (msg3, alice)]"
    by (simp add: replyMessages_def replyIds_def chat_db_joined example_fields)
  with rows show ?thesis
    by (simp add: getConversationMessages_def js_Map_def example_fields)
qed

theorem deleted_hidden_but_quoted_witness:
  "wf_db chat_db \<and> isDeleted msg1 \<and> msg1 \<in> set (messages chat_db) \<and>
   msg1 \<notin> set (map hm_message (getConversationMessages chat_db ''c-ab'' None None)) \<and>
   \<lparr>hm_message = msg2, hm_sender = bob, hm_replyTo = Some (msg1, alice)\<rparr>
     \<in> set (getConversationMessages chat_db ''c-ab'' None None) \<and>
   replyToId msg2 = Some (msg_id msg1) \<and> getUser chat_db (senderId msg1) = Some alice"
proof -
  let ?h = "\<lparr>hm_message = msg2, hm_sender = bob, hm_replyTo = Some (msg1, alice)\<rparr>"
  note both = deleted_hidden_but_quoted [OF wf_chat_db, of "''c-ab''" None None]
  have del: "isDeleted msg1" and stored: "msg1 \<in> set (messages chat_db)"
    and ref: "replyToId msg2 = Some (msg_id msg1)"
    by (simp_all add: example_fields)
  from both del have "msg1 \<notin> set (map hm_message (getConversationMessages chat_db ''c-ab'' None None))"
    by blast
  moreover have elem: "?h \<in> set (getConversationMessages chat_db ''c-ab'' None None)"
    by (simp add: chat_db_history_all)
  moreover from both elem stored del ref
  have "\<exists>s. getUser chat_db (senderId msg1) = Some s \<and> hm_replyTo ?h = Some (msg1, s)"
    by (metis historyMessage.select_convs(1))
  then have "getUser chat_db (senderId msg1) = Some alice" by auto
  ultimately show ?thesis using wf_chat_db del stored ref by blast
qed

subsection \<open>Direct conversations\<close>

lemma set_inner_join:
  "set (inner_join xs ys on) = {(x, y). x \<in> set xs \<and> y \<in> set ys \<and> on x y}"
  unfolding inner_join_def by auto

lemma in_directConversationsOf:
  "c \<in> set (directConversationsOf d u) \<longleftrightarrow>
     c \<in> set (conversations d) \<and> isGroup c = Some False \<and>
     (\<exists>m \<in> set (conversationMembers d). member_conversationId m = conv_id c \<and> member_userId m = u)"
  (is "?L \<longleftrightarrow> ?R")
proof
  assume ?L
  then obtain m where "(c, m) \<in> set (inner_join (conversations d) (conversationMembers d)
      (\<lambda>c m. conv_id c = member_conversationId m))" "isGroup c = Some False" "member_userId m = u"
    by (auto simp: directConversationsOf_def)
  then have "c \<in> set (conversations d)" "m \<in> set (conversationMembers d)"
    "member_conversationId m = conv_id c" "isGroup c = Some False" "member_userId m = u"
    by (simp_all add: set_inner_join)
  then show ?R by (intro conjI bexI [of _ m]) simp_all
next
  assume ?R
  then obtain m where c: "c \<in> set (conversations d)" "isGroup c = Some False"
    and m: "m \<in> set (conversationMembers d)" "member_conversationId m = conv_id c"
      "member_userId m = u"
    by blast
  then have "(c, m) \<in> set (filter (\<lambda>(c, m). isGroup c = Some False \<and> member_userId m = u)
      (inner_join (conversations d) (conversationMembers d)
          (\<lambda>c m. conv_id c = member_conversationId m)))"
    by (simp add: set_inner_join)
  then have "fst (c, m) \<in> set (directConversationsOf d u)"
    unfolding directConversationsOf_def set_map by (rule imageI)
  then show ?L by simp
qed

lemma set_directConversationsOf:
  "set (directConversationsOf d u) =
     {c \<in> set (conversations d). isGroup c = Some False \<and>
        (\<exists>m \<in> set (conversationMembers d). member_conversationId m = conv_id c \<and> member_userId m = u)}"
  by (rule set_eqI) (simp add: in_directConversationsOf)

lemma set_existingConversation:
  "set (existingConversation d a b) =
     set (directConversationsOf d a) \<inter> set (directConversationsOf d b)"
  by (auto simp: existingConversation_def intersect_def)

lemma distinct_existingConversation: "distinct (existingConversation d a b)"
  by (simp add: existingConversation_def intersect_def)

lemma existingConversation_commute:
  "set (existingConversation d a b) = set (existingConversation d b a)"
  by (auto simp: set_existingConversation)

lemma distinct_singleton:
  assumes "distinct xs" and "set xs = {x}"
  shows "xs = [x]"
proof (cases xs)
  case Nil
  with assms show ?thesis by simp
next
  case (Cons y ys)
  with assms have "y = x" by auto
  moreover from Cons assms have "set ys \<subseteq> {x}" "y \<notin> set ys" by auto
  ultimately have "ys = []" by (cases ys) auto
  with Cons \<open>y = x\<close> show ?thesis by simp
qed

lemma found_direct:
  assumes "existingConversation d a b = c # rest"
  shows "getOrCreateDirectConversation d dc dm1 dm2 a b = (Inr c, d)"
  using assms by (simp add: getOrCreateDirectConversation_def)

lemma create_direct:
  assumes "existingConversation d a b = []"
    and "a \<in> set (map user_id (users d))" and "b \<in> set (map user_id (users d))"
    and "fst dc \<notin> set (map conv_id (conversations d))"
    and "fst dm1 \<notin> set (map member_id (conversationMembers d))"
    and "fst dm2 \<notin> set (map member_id (conversationMembers d))"
    and "fst dm1 \<noteq> fst dm2"
  shows "getOrCreateDirectConversation d dc dm1 dm2 a b =
     (Inr \<lparr>conv_id = fst dc, conv_name = None, description = None, isGroup = Some False,
           conv_avatar = None, createdBy = Some a, conv_createdAt = snd dc\<rparr>,
      d\<lparr>conversations := conversations d @
           [\<lparr>conv_id = fst dc, conv_name = None, description = None, isGroup = Some False,
             conv_avatar = None, createdBy = Some a, conv_createdAt = snd dc\<rparr>],
        conversationMembers := conversationMembers d @
           [\<lparr>member_id = fst dm1, member_conversationId = fst dc, member_userId = a,
             joinedAt = snd dm1\<rparr>,
            \<lparr>member_id = fst dm2, member_conversationId = fst dc, member_userId = b,
             joinedAt = snd dm2\<rparr>]\<rparr>)"
proof -
  let ?c = "\<lparr>conv_id = fst dc, conv_name = None, description = None, isGroup = Some False,
           conv_avatar = None, createdBy = Some a, conv_createdAt = snd dc\<rparr>"
  let ?d1 = "d\<lparr>conversations := conversations d @ [?c]\<rparr>"
  let ?r1 = "\<lparr>member_id = fst dm1, member_conversationId = fst dc, member_userId = a,
             joinedAt = snd dm1\<rparr>"
  let ?d2 = "?d1\<lparr>conversationMembers := conversationMembers d @ [?r1]\<rparr>"
  have s1: "createConversation d dc \<lparr>ins_name = None, ins_description = None,
      ins_isGroup = Given (Some False), ins_avatar = None, ins_createdBy = Some a\<rparr> = (Inr ?c, ?d1)"
    using assms(2,4) by (simp add: createConversation_def Let_def)
  have s2: "addConversationMember ?d1 dm1 (fst dc) a = (Inr (), ?d2)"
    using assms(2,5) by (simp add: addConversationMember_def)
  have s3: "addConversationMember ?d2 dm2 (fst dc) b =
      (Inr (), ?d2\<lparr>conversationMembers := conversationMembers ?d2 @
         [\<lparr>member_id = fst dm2, member_conversationId = fst dc, member_userId = b,
             joinedAt = snd dm2\<rparr>]\<rparr>)"
    using assms(3,6,7) by (simp add: addConversationMember_def)
  show ?thesis
    unfolding getOrCreateDirectConversation_def assms(1) list.case
    by (simp add: s1 and_then_def s2 s3)
qed

lemma existing_after_create:
  assumes none: "existingConversation d a b = []"
    and fresh: "fst dc \<notin> set (map conv_id (conversations d))"
    and c: "conv_id c = fst dc" "isGroup c = Some False"
    and r: "member_conversationId r1 = fst dc" "member_userId r1 = a"
      "member_conversationId r2 = fst dc" "member_userId r2 = b"
  shows "set (existingConversation
           (d\<lparr>conversations := conversations d @ [c],
              conversationMembers := conversationMembers d @ [r1, r2]\<rparr>) a b) = {c}"
    (is "set (existingConversation ?d' a b) = {c}")
proof (intro set_eqI iffI)
  fix x assume x: "x \<in> set (existingConversation ?d' a b)"
  show "x \<in> {c}"
  proof (rule ccontr)
    assume "x \<notin> {c}"
    with x have old: "x \<in> set (conversations d)" and g: "isGroup x = Some False"
      by (auto simp: set_existingConversation in_directConversationsOf)
    with fresh have ne: "conv_id x \<noteq> fst dc" by force
    from x obtain m where "m \<in> set (conversationMembers d) \<union> {r1, r2}"
      "member_conversationId m = conv_id x" "member_userId m = a"
      by (auto simp: set_existingConversation in_directConversationsOf)
    with ne r have ma: "\<exists>m \<in> set (conversationMembers d).
        member_conversationId m = conv_id x \<and> member_userId m = a" by auto
    from x obtain m where "m \<in> set (conversationMembers d) \<union> {r1, r2}"
      "member_conversationId m = conv_id x" "member_userId m = b"
      by (auto simp: set_existingConversation in_directConversationsOf)
    with ne r have mb: "\<exists>m \<in> set (conversationMembers d).
        member_conversationId m = conv_id x \<and> member_userId m = b" by auto
    from old g ma mb have "x \<in> set (existingConversation d a b)"
      by (simp add: set_existingConversation in_directConversationsOf)
    with none show False by simp
  qed
next
  fix x assume "x \<in> {c}"
  then have "x = c" by simp
  with c r show "x \<in> set (existingConversation ?d' a b)"
    by (simp add: set_existingConversation in_directConversationsOf)
qed

lemma resolve_unique:
  assumes "set (existingConversation d a b) = {c}"
  shows "getOrCreateDirectConversation d dc dm1 dm2 a b = (Inr c, d)"
    and "getOrCreateDirectConversation d dc dm1 dm2 b a = (Inr c, d)"
proof -
  from distinct_singleton [OF distinct_existingConversation assms]
  show "getOrCreateDirectConversation d dc dm1 dm2 a b = (Inr c, d)"
    by (simp add: found_direct)
  from assms have "set (existingConversation d b a) = {c}"
    by (simp add: existingConversation_commute)
  from distinct_singleton [OF distinct_existingConversation this]
  show "getOrCreateDirectConversation d dc dm1 dm2 b a = (Inr c, d)"
    by (simp add: found_direct)
qed

lemma direct_between:
  "{c \<in> set (conversations d). isGroup c = Some False \<and>
      (\<exists>m \<in> set (conversationMembers d). member_conversationId m = conv_id c \<and> member_userId m = a) \<and>
      (\<exists>m \<in> set (conversationMembers d). member_conversationId m = conv_id c \<and> member_userId m = b)} =
   set (existingConversation d a b)"
  by (rule set_eqI) (auto simp: set_existingConversation in_directConversationsOf)

text \<open>
  C1, as amended. From a state in which at most one conversation that is not a group
  has both users as members: the first resolution returns a conversation, the second
  one, with the arguments in either order, returns the same conversation and leaves
  the state as it is, and afterwards exactly that one conversation that is not a group
  has both users as members.
\<close>

theorem direct_resolution_idempotent:
  assumes "length (existingConversation d a b) \<le> 1"
    and "a \<in> set (map user_id (users d))" and "b \<in> set (map user_id (users d))"
    and "fst dc \<notin> set (map conv_id (conversations d))"
    and "fst dm1 \<notin> set (map member_id (conversationMembers d))"
    and "fst dm2 \<notin> set (map member_id (conversationMembers d))"
    and "fst dm1 \<noteq> fst dm2"
    and "(x, y) = (a, b) \<or> (x, y) = (b, a)"
  shows "\<exists>c d1. getOrCreateDirectConversation d dc dm1 dm2 a b = (Inr c, d1) \<and>
           getOrCreateDirectConversation d1 dc' dm1' dm2' x y = (Inr c, d1) \<and>
           {c' \<in> set (conversations d1). isGroup c' = Some False \<and>
              (\<exists>m \<in> set (conversationMembers d1).
                  member_conversationId m = conv_id c' \<and> member_userId m = a) \<and>
              (\<exists>m \<in> set (conversationMembers d1).
                  member_conversationId m = conv_id c' \<and> member_userId m = b)} = {c}"
proof -
  have "\<exists>c d1. getOrCreateDirectConversation d dc dm1 dm2 a b = (Inr c, d1) \<and>
      set (existingConversation d1 a b) = {c}"
  proof (cases "existingConversation d a b")
    case Nil
    let ?c = "\<lparr>conv_id = fst dc, conv_name = None, description = None, isGroup = Some False,
           conv_avatar = None, createdBy = Some a, conv_createdAt = snd dc\<rparr>"
    let ?r1 = "\<lparr>member_id = fst dm1, member_conversationId = fst dc, member_userId = a,
             joinedAt = snd dm1\<rparr>"
    let ?r2 = "\<lparr>member_id = fst dm2, member_conversationId = fst dc, member_userId = b,
             joinedAt = snd dm2\<rparr>"
    from create_direct [OF Nil assms(2-7)]
    have "getOrCreateDirectConversation d dc dm1 dm2 a b =
        (Inr ?c, d\<lparr>conversations := conversations d @ [?c],
                   conversationMembers := conversationMembers d @ [?r1, ?r2]\<rparr>)" .
    moreover have "set (existingConversation (d\<lparr>conversations := conversations d @ [?c],
                   conversationMembers := conversationMembers d @ [?r1, ?r2]\<rparr>) a b) = {?c}"
      by (rule existing_after_create [OF Nil assms(4)]) simp_all
    ultimately show ?thesis by blast
  next
    case (Cons c rest)
    with assms(1) have "existingConversation d a b = [c]" by simp
    then have "set (existingConversation d a b) = {c}" by simp
    with found_direct [OF Cons] show ?thesis by blast
  qed
  then obtain c d1 where first: "getOrCreateDirectConversation d dc dm1 dm2 a b = (Inr c, d1)"
    and one: "set (existingConversation d1 a b) = {c}" by blast
  from assms(8) resolve_unique [OF one, of dc' dm1' dm2']
  have "getOrCreateDirectConversation d1 dc' dm1' dm2' x y = (Inr c, d1)"
    by (elim disjE) simp_all
  with first one show ?thesis unfolding direct_between by blast
qed

lemma dup_db_tables:
  "users dup_db = [alice, bob, carol]"
  "conversations dup_db = [conv_ab, conv_team, conv_ab2]"
  "conversationMembers dup_db = [mb1, mb2, mb3, mb4, mb5, mb6, mb7]"
  "messages dup_db = [msg1, msg2, msg3, msg4]"
  "calls dup_db = []"
  by (simp_all add: dup_db_def chat_db_def)

lemma dup_fields:
  "conv_id conv_ab2 = ''c-ab2''" "isGroup conv_ab2 = Some False"
  "createdBy conv_ab2 = Some ''u-alice''"
  "member_id mb6 = ''mb-6''" "member_id mb7 = ''mb-7''"
  "member_conversationId mb6 = ''c-ab2''" "member_conversationId mb7 = ''c-ab2''"
  "member_userId mb6 = ''u-alice''" "member_userId mb7 = ''u-bob''"
  by (simp_all add: conv_ab2_def mb6_def mb7_def member_row_def)

lemma conversations_differ:
  "conv_ab \<noteq> conv_team" "conv_ab \<noteq> conv_ab2" "conv_team \<noteq> conv_ab2"
  by (simp_all add: conv_ab_def conv_team_def conv_ab2_def)

lemma chat_db_direct:
  "directConversationsOf chat_db ''u-alice'' = [conv_ab]"
  "directConversationsOf chat_db ''u-bob'' = [conv_ab]"
  "directConversationsOf chat_db ''u-carol'' = []"
  by (simp_all add: directConversationsOf_def inner_join_def example_fields)

lemma dup_db_direct:
  "directConversationsOf dup_db ''u-alice'' = [conv_ab, conv_ab2]"
  "directConversationsOf dup_db ''u-bob'' = [conv_ab, conv_ab2]"
  by (simp_all add: directConversationsOf_def inner_join_def dup_db_tables dup_fields
      user_fields conversation_fields member_fields)

lemma dup_db_existing:
  "existingConversation dup_db ''u-alice'' ''u-bob'' = [conv_ab, conv_ab2]"
  "existingConversation dup_db ''u-bob'' ''u-alice'' = [conv_ab, conv_ab2]"
  by (simp_all add: existingConversation_def intersect_def dup_db_direct conversations_differ)

lemma wf_dup_db: "wf_db dup_db"
  by (simp add: wf_db_def dup_db_tables dup_fields user_fields conversation_fields
      member_fields message_fields)

lemma dup_db_reachable:
  "postConversation chat_server (Some ''u-alice'') (''c-ab2'', 6) (''mb-6'', 6) bob_draws
     plain_body (Some [''u-bob'']) =
   ((201, JConversation conv_ab2), chat_server\<lparr>store := dup_db\<rparr>)"
proof -
  let ?d1 = "chat_db\<lparr>conversations := [conv_ab, conv_team, conv_ab2]\<rparr>"
  let ?d2 = "?d1\<lparr>conversationMembers := [mb1, mb2, mb3, mb4, mb5, mb6]\<rparr>"
  have s1: "createConversation chat_db (''c-ab2'', 6) (plain_body\<lparr>ins_createdBy := Some ''u-alice''\<rparr>) =
      (Inr conv_ab2, ?d1)"
    by (simp add: createConversation_def Let_def plain_body_def conv_ab2_def example_fields)
  have s2: "addConversationMember ?d1 (''mb-6'', 6) ''c-ab2'' ''u-alice'' = (Inr (), ?d2)"
    by (simp add: addConversationMember_def example_fields dup_fields mb6_def member_row_def)
  have s3: "addConversationMember ?d2 (bob_draws 0) ''c-ab2'' ''u-bob'' = (Inr (), dup_db)"
    by (simp add: addConversationMember_def example_fields dup_fields mb6_def mb7_def
        member_row_def dup_db_def bob_draws_def)
  show ?thesis
    by (simp add: postConversation_def chat_server_def s1 and_then_def dup_fields s2 s3)
qed

text \<open>
  The claim as stated fails on a state that the API reaches: in \<open>dup_db\<close> both
  resolutions return \<open>conv_ab\<close>, and two conversations that are not groups have alice
  and bob as members afterwards.
\<close>

theorem direct_pair_not_unique_counterexample:
  "wf_db dup_db \<and>
   snd (postConversation chat_server (Some ''u-alice'') (''c-ab2'', 6) (''mb-6'', 6)
          bob_draws plain_body (Some [''u-bob''])) = chat_server\<lparr>store := dup_db\<rparr> \<and>
   getOrCreateDirectConversation dup_db (''c-new'', 7) (''mb-8'', 7) (''mb-9'', 7)
      ''u-alice'' ''u-bob'' = (Inr conv_ab, dup_db) \<and>
   getOrCreateDirectConversation dup_db (''c-new'', 8) (''mb-8'', 8) (''mb-9'', 8)
      ''u-bob'' ''u-alice'' = (Inr conv_ab, dup_db) \<and>
   existingConversation dup_db ''u-alice'' ''u-bob'' = [conv_ab, conv_ab2] \<and>
   conv_id conv_ab \<noteq> conv_id conv_ab2 \<and>
   \<not> length (existingConversation dup_db ''u-alice'' ''u-bob'') \<le> 1"
  by (simp add: wf_dup_db dup_db_reachable found_direct [OF dup_db_existing(1)]
      found_direct [OF dup_db_existing(2)] dup_db_existing conversation_fields dup_fields)

theorem direct_resolution_idempotent_witness:
  "length (existingConversation chat_db ''u-alice'' ''u-carol'') \<le> 1 \<and>
   ''u-alice'' \<in> set (map user_id (users chat_db)) \<and>
   ''u-carol'' \<in> set (map user_id (users chat_db)) \<and>
   ''c-ac'' \<notin> set (map conv_id (conversations chat_db)) \<and>
   ''mb-8'' \<notin> set (map member_id (conversationMembers chat_db)) \<and>
   ''mb-9'' \<notin> set (map member_id (conversationMembers chat_db)) \<and>
   (\<exists>c d1. getOrCreateDirectConversation chat_db (''c-ac'', 50) (''mb-8'', 50) (''mb-9'', 50)
               ''u-alice'' ''u-carol'' = (Inr c, d1) \<and>
            conv_id c = ''c-ac'' \<and>
            getOrCreateDirectConversation d1 (''c-x'', 60) (''mb-x'', 60) (''mb-y'', 60)
               ''u-carol'' ''u-alice'' = (Inr c, d1))"
proof -
  have none: "existingConversation chat_db ''u-alice'' ''u-carol'' = []"
    by (simp add: existingConversation_def intersect_def chat_db_direct)
  have h1: "length (existingConversation chat_db ''u-alice'' ''u-carol'') \<le> 1"
    by (simp add: none)
  have h2: "''u-alice'' \<in> set (map user_id (users chat_db))"
    and h3: "''u-carol'' \<in> set (map user_id (users chat_db))"
    and h4: "fst (''c-ac'', 50::nat) \<notin> set (map conv_id (conversations chat_db))"
    and h5: "fst (''mb-8'', 50::nat) \<notin> set (map member_id (conversationMembers chat_db))"
    and h6: "fst (''mb-9'', 50::nat) \<notin> set (map member_id (conversationMembers chat_db))"
    and h7: "fst (''mb-8'', 50::nat) \<noteq> fst (''mb-9'', 50::nat)"
    and h8: "(''u-carol'', ''u-alice'') = (''u-alice'', ''u-carol'') \<or>
             (''u-carol'', ''u-alice'') = (''u-carol'', ''u-alice'')"
    by (simp_all add: example_fields)
  from direct_resolution_idempotent [OF h1 h2 h3 h4 h5 h6 h7 h8,
      of "(''c-x'', 60)" "(''mb-x'', 60)" "(''mb-y'', 60)"]
  obtain c d1 where
    first: "getOrCreateDirectConversation chat_db (''c-ac'', 50) (''mb-8'', 50) (''mb-9'', 50)
               ''u-alice'' ''u-carol'' = (Inr c, d1)"
    and second: "getOrCreateDirectConversation d1 (''c-x'', 60) (''mb-x'', 60) (''mb-y'', 60)
               ''u-carol'' ''u-alice'' = (Inr c, d1)"
    by blast
  from first create_direct [OF none h2 h3 h4 h5 h6 h7] have "conv_id c = ''c-ac''"
    by auto
  with first second h1 h2 h3 h4 h5 h6 show ?thesis by auto
qed

text \<open>
  C2. The conversations \<open>getOrCreateDirectConversation\<close> looks at are those that are
  not a group and have \<open>user1Id\<close> as a member, intersected with those that are not a
  group and have \<open>user2Id\<close> as a member. If there is one, the method returns one of
  them and leaves the state as it is. If there is none, then, for two stored users
  and newly generated row ids, it appends one conversation that is not a group and
  the two membership rows of \<open>user1Id\<close> and \<open>user2Id\<close>, leaves the other tables as
  they are, and returns the new conversation.
\<close>

theorem getOrCreateDirect_finds_or_creates:
  assumes "user1Id \<in> set (map user_id (users d))" and "user2Id \<in> set (map user_id (users d))"
    and "fst dc \<notin> set (map conv_id (conversations d))"
    and "fst dm1 \<notin> set (map member_id (conversationMembers d))"
    and "fst dm2 \<notin> set (map member_id (conversationMembers d))"
    and "fst dm1 \<noteq> fst dm2"
  shows "set (existingConversation d user1Id user2Id) =
           {c \<in> set (conversations d). isGroup c = Some False \<and>
              (\<exists>m \<in> set (conversationMembers d).
                  member_conversationId m = conv_id c \<and> member_userId m = user1Id)} \<inter>
           {c \<in> set (conversations d). isGroup c = Some False \<and>
              (\<exists>m \<in> set (conversationMembers d).
                  member_conversationId m = conv_id c \<and> member_userId m = user2Id)} \<and>
         (existingConversation d user1Id user2Id \<noteq> [] \<longrightarrow>
            (\<exists>c \<in> set (existingConversation d user1Id user2Id).
               getOrCreateDirectConversation d dc dm1 dm2 user1Id user2Id = (Inr c, d))) \<and>
         (existingConversation d user1Id user2Id = [] \<longrightarrow>
            (\<exists>c d'. getOrCreateDirectConversation d dc dm1 dm2 user1Id user2Id = (Inr c, d') \<and>
               conv_id c = fst dc \<and> isGroup c = Some False \<and>
               conversations d' = conversations d @ [c] \<and>
               conversationMembers d' = conversationMembers d @
                 [\<lparr>member_id = fst dm1, member_conversationId = conv_id c,
                   member_userId = user1Id, joinedAt = snd dm1\<rparr>,
                  \<lparr>member_id = fst dm2, member_conversationId = conv_id c,
                   member_userId = user2Id, joinedAt = snd dm2\<rparr>] \<and>
               users d' = users d \<and> messages d' = messages d \<and> calls d' = calls d))"
proof (intro conjI impI)
  show "set (existingConversation d user1Id user2Id) =
           {c \<in> set (conversations d). isGroup c = Some False \<and>
              (\<exists>m \<in> set (conversationMembers d).
                  member_conversationId m = conv_id c \<and> member_userId m = user1Id)} \<inter>
           {c \<in> set (conversations d). isGroup c = Some False \<and>
              (\<exists>m \<in> set (conversationMembers d).
                  member_conversationId m = conv_id c \<and> member_userId m = user2Id)}"
    by (simp only: set_existingConversation set_directConversationsOf)
next
  assume "existingConversation d user1Id user2Id \<noteq> []"
  then obtain c rest where found: "existingConversation d user1Id user2Id = c # rest"
    by (cases "existingConversation d user1Id user2Id") simp_all
  then have "c \<in> set (existingConversation d user1Id user2Id)" by simp
  with found_direct [OF found]
  show "\<exists>c \<in> set (existingConversation d user1Id user2Id).
               getOrCreateDirectConversation d dc dm1 dm2 user1Id user2Id = (Inr c, d)"
    by blast
next
  assume none: "existingConversation d user1Id user2Id = []"
  let ?c = "\<lparr>conv_id = fst dc, conv_name = None, description = None, isGroup = Some False,
           conv_avatar = None, createdBy = Some user1Id, conv_createdAt = snd dc\<rparr>"
  let ?d' = "d\<lparr>conversations := conversations d @ [?c],
        conversationMembers := conversationMembers d @
           [\<lparr>member_id = fst dm1, member_conversationId = fst dc, member_userId = user1Id,
             joinedAt = snd dm1\<rparr>,
            \<lparr>member_id = fst dm2, member_conversationId = fst dc, member_userId = user2Id,
             joinedAt = snd dm2\<rparr>]\<rparr>"
  from create_direct [OF none assms]
  have "getOrCreateDirectConversation d dc dm1 dm2 user1Id user2Id = (Inr ?c, ?d')" .
  then show "\<exists>c d'. getOrCreateDirectConversation d dc dm1 dm2 user1Id user2Id = (Inr c, d') \<and>
               conv_id c = fst dc \<and> isGroup c = Some False \<and>
               conversations d' = conversations d @ [c] \<and>
               conversationMembers d' = conversationMembers d @
                 [\<lparr>member_id = fst dm1, member_conversationId = conv_id c,
                   member_userId = user1Id, joinedAt = snd dm1\<rparr>,
                  \<lparr>member_id = fst dm2, member_conversationId = conv_id c,
                   member_userId = user2Id, joinedAt = snd dm2\<rparr>] \<and>
               users d' = users d \<and> messages d' = messages d \<and> calls d' = calls d"
    by (intro exI [of _ ?c] exI [of _ ?d']) simp
qed

theorem getOrCreateDirect_finds_or_creates_witness:
  "''u-alice'' \<in> set (map user_id (users chat_db)) \<and>
   ''u-bob'' \<in> set (map user_id (users chat_db)) \<and>
   ''u-carol'' \<in> set (map user_id (users chat_db)) \<and>
   ''c-ac'' \<notin> set (map conv_id (conversations chat_db)) \<and>
   ''mb-8'' \<notin> set (map member_id (conversationMembers chat_db)) \<and>
   ''mb-9'' \<notin> set (map member_id (conversationMembers chat_db)) \<and>
   existingConversation chat_db ''u-alice'' ''u-bob'' = [conv_ab] \<and>
   getOrCreateDirectConversation chat_db (''c-ac'', 50) (''mb-8'', 50) (''mb-9'', 50)
      ''u-alice'' ''u-bob'' = (Inr conv_ab, chat_db) \<and>
   existingConversation chat_db ''u-alice'' ''u-carol'' = [] \<and>
   (\<exists>c d'. getOrCreateDirectConversation chat_db (''c-ac'', 50) (''mb-8'', 50) (''mb-9'', 50)
              ''u-alice'' ''u-carol'' = (Inr c, d') \<and>
            conv_id c = ''c-ac'' \<and> isGroup c = Some False \<and>
            conversations d' = [conv_ab, conv_team, c] \<and>
            map member_userId (conversationMembers d') =
              [''u-alice'', ''u-bob'', ''u-alice'', ''u-bob'', ''u-carol'', ''u-alice'', ''u-carol''])"
proof -
  have one: "existingConversation chat_db ''u-alice'' ''u-bob'' = [conv_ab]"
    and none: "existingConversation chat_db ''u-alice'' ''u-carol'' = []"
    by (simp_all add: existingConversation_def intersect_def chat_db_direct)
  have h2: "''u-alice'' \<in> set (map user_id (users chat_db))"
    and h2': "''u-bob'' \<in> set (map user_id (users chat_db))"
    and h3: "''u-carol'' \<in> set (map user_id (users chat_db))"
    and h4: "fst (''c-ac'', 50::nat) \<notin> set (map conv_id (conversations chat_db))"
    and h5: "fst (''mb-8'', 50::nat) \<notin> set (map member_id (conversationMembers chat_db))"
    and h6: "fst (''mb-9'', 50::nat) \<notin> set (map member_id (conversationMembers chat_db))"
    and h7: "fst (''mb-8'', 50::nat) \<noteq> fst (''mb-9'', 50::nat)"
    by (simp_all add: example_fields)
  from getOrCreateDirect_finds_or_creates [OF h2 h2' h4 h5 h6 h7] one
  have found: "getOrCreateDirectConversation chat_db (''c-ac'', 50) (''mb-8'', 50) (''mb-9'', 50)
      ''u-alice'' ''u-bob'' = (Inr conv_ab, chat_db)"
    by simp
  from getOrCreateDirect_finds_or_creates [OF h2 h3 h4 h5 h6 h7] none
  obtain c d' where "getOrCreateDirectConversation chat_db (''c-ac'', 50) (''mb-8'', 50) (''mb-9'', 50)
              ''u-alice'' ''u-carol'' = (Inr c, d')"
    "conv_id c = ''c-ac''" "isGroup c = Some False"
    "conversations d' = conversations chat_db @ [c]"
    "conversationMembers d' = conversationMembers chat_db @
        [\<lparr>member_id = ''mb-8'', member_conversationId = conv_id c,
          member_userId = ''u-alice'', joinedAt = 50\<rparr>,
         \<lparr>member_id = ''mb-9'', member_conversationId = conv_id c,
          member_userId = ''u-carol'', joinedAt = 50\<rparr>]"
    by auto
  then have "\<exists>c d'. getOrCreateDirectConversation chat_db (''c-ac'', 50) (''mb-8'', 50) (''mb-9'', 50)
              ''u-alice'' ''u-carol'' = (Inr c, d') \<and>
            conv_id c = ''c-ac'' \<and> isGroup c = Some False \<and>
            conversations d' = [conv_ab, conv_team, c] \<and>
            map member_userId (conversationMembers d') =
              [''u-alice'', ''u-bob'', ''u-alice'', ''u-bob'', ''u-carol'', ''u-alice'', ''u-carol'']"
    by (intro exI [of _ c] exI [of _ d']) (simp add: example_fields)
  with one none found h2 h2' h3 h4 h5 h6 show ?thesis by simp
qed

subsection \<open>Membership inserts\<close>

lemma wf_db_members:
  assumes "wf_db d" and "m \<in> set (conversationMembers d)"
  shows "member_conversationId m \<in> set (map conv_id (conversations d))"
    and "member_userId m \<in> set (map user_id (users d))"
  using assms by (simp_all add: wf_db_def list_all_iff)

lemma addConversationMember_cases:
  "addConversationMember d dr cid uid = (Inr (), d) \<and>
      fst dr \<in> set (map member_id (conversationMembers d)) \<or>
   addConversationMember d dr cid uid = (Inl ForeignKeyViolation, d) \<and>
      (cid \<notin> set (map conv_id (conversations d)) \<or> uid \<notin> set (map user_id (users d))) \<or>
   addConversationMember d dr cid uid =
      (Inr (), d\<lparr>conversationMembers := conversationMembers d @
         [\<lparr>member_id = fst dr, member_conversationId = cid, member_userId = uid,
           joinedAt = snd dr\<rparr>]\<rparr>) \<and>
      cid \<in> set (map conv_id (conversations d)) \<and> uid \<in> set (map user_id (users d))"
  by (simp add: addConversationMember_def)

text \<open>
  C7, as amended. Inserting a membership pair that is already stored is not reported
  to the caller: \<open>addConversationMember\<close> returns normally, and every row that was
  stored before is still stored. The only error the method reports is a reference to
  a conversation or a user that is not stored.
\<close>

theorem addConversationMember_duplicate_not_reported:
  assumes "wf_db d" and "m \<in> set (conversationMembers d)"
  shows "fst (addConversationMember d dr (member_conversationId m) (member_userId m)) = Inr () \<and>
         (\<exists>rows. conversationMembers
             (snd (addConversationMember d dr (member_conversationId m) (member_userId m))) =
             conversationMembers d @ rows) \<and>
         (\<forall>cid uid e. fst (addConversationMember d dr cid uid) = Inl e \<longrightarrow>
            e = ForeignKeyViolation \<and>
            (cid \<notin> set (map conv_id (conversations d)) \<or> uid \<notin> set (map user_id (users d))))"
proof -
  let ?r = "addConversationMember d dr (member_conversationId m) (member_userId m)"
  from wf_db_members [OF assms] addConversationMember_cases [of d dr "member_conversationId m" "member_userId m"]
  have cases: "?r = (Inr (), d) \<or>
      ?r = (Inr (), d\<lparr>conversationMembers := conversationMembers d @
         [\<lparr>member_id = fst dr, member_conversationId = member_conversationId m,
           member_userId = member_userId m, joinedAt = snd dr\<rparr>]\<rparr>)"
    by blast
  then have ok: "fst ?r = Inr ()" by (elim disjE) simp_all
  from cases have kept: "\<exists>rows. conversationMembers (snd ?r) = conversationMembers d @ rows"
  proof (elim disjE)
    assume "?r = (Inr (), d)"
    then show ?thesis by (intro exI [of _ "[]"]) simp
  next
    assume "?r = (Inr (), d\<lparr>conversationMembers := conversationMembers d @
         [\<lparr>member_id = fst dr, member_conversationId = member_conversationId m,
           member_userId = member_userId m, joinedAt = snd dr\<rparr>]\<rparr>)"
    then show ?thesis by simp
  qed
  have only: "\<forall>cid uid e. fst (addConversationMember d dr cid uid) = Inl e \<longrightarrow>
            e = ForeignKeyViolation \<and>
            (cid \<notin> set (map conv_id (conversations d)) \<or> uid \<notin> set (map user_id (users d)))"
  proof (intro allI impI)
    fix cid uid e
    assume "fst (addConversationMember d dr cid uid) = Inl e"
    with addConversationMember_cases [of d dr cid uid]
    show "e = ForeignKeyViolation \<and>
            (cid \<notin> set (map conv_id (conversations d)) \<or> uid \<notin> set (map user_id (users d)))"
      by (elim disjE conjE) simp_all
  qed
  from ok kept only show ?thesis by (intro conjI)
qed

text \<open>
  The claim as stated fails: alice is a member of \<open>c-ab\<close>; inserting the pair again
  under a new row id returns normally and stores a second row for the pair.
\<close>

theorem duplicate_membership_counterexample:
  "member_conversationId mb1 = ''c-ab'' \<and> member_userId mb1 = ''u-alice'' \<and>
   mb1 \<in> set (conversationMembers chat_db) \<and>
   addConversationMember chat_db (''mb-8'', 50) ''c-ab'' ''u-alice'' =
     (Inr (), chat_db\<lparr>conversationMembers :=
        [mb1, mb2, mb3, mb4, mb5, member_row ''mb-8'' ''c-ab'' ''u-alice'' 50]\<rparr>) \<and>
   \<not> distinct (member_pairs
        (snd (addConversationMember chat_db (''mb-8'', 50) ''c-ab'' ''u-alice'')))"
proof -
  have run: "addConversationMember chat_db (''mb-8'', 50) ''c-ab'' ''u-alice'' =
     (Inr (), chat_db\<lparr>conversationMembers :=
        [mb1, mb2, mb3, mb4, mb5, member_row ''mb-8'' ''c-ab'' ''u-alice'' 50]\<rparr>)"
    by (simp add: addConversationMember_def example_fields member_row_def)
  show ?thesis
    unfolding run by (simp add: member_pairs_def example_fields member_row_def)
qed

theorem addConversationMember_duplicate_not_reported_witness:
  "wf_db chat_db \<and> mb1 \<in> set (conversationMembers chat_db) \<and>
   fst (addConversationMember chat_db (''mb-8'', 50) ''c-ab'' ''u-alice'') = Inr () \<and>
   fst (addConversationMember chat_db (''mb-8'', 50) ''c-ab'' ''u-ghost'') = Inl ForeignKeyViolation"
proof -
  have stored: "mb1 \<in> set (conversationMembers chat_db)" by (simp add: example_fields)
  note inst = addConversationMember_duplicate_not_reported [OF wf_chat_db stored, of "(''mb-8'', 50)"]
  from inst have "fst (addConversationMember chat_db (''mb-8'', 50) ''c-ab'' ''u-alice'') = Inr ()"
    by (simp add: example_fields)
  moreover have "fst (addConversationMember chat_db (''mb-8'', 50) ''c-ab'' ''u-ghost'') =
      Inl ForeignKeyViolation"
    by (simp add: addConversationMember_def example_fields)
  ultimately show ?thesis using wf_chat_db stored by simp
qed

subsection \<open>Group creation\<close>

lemma addMembers_stops_at_unknown:
  assumes "conversationId \<in> set (map conv_id (conversations d))"
    and "set pre \<subseteq> set (map user_id (users d))"
    and "bad \<notin> set (map user_id (users d))"
    and "\<forall>j \<in> {i..i + length pre}. fst (mdraws j) \<notin> set (map member_id (conversationMembers d))"
    and "inj_on (\<lambda>j. fst (mdraws j)) {i..i + length pre}"
  shows "addMembers d mdraws i conversationId (pre @ bad # post) =
     (Inl ForeignKeyViolation,
      d\<lparr>conversationMembers := conversationMembers d @
         map (\<lambda>(j, u). \<lparr>member_id = fst (mdraws j), member_conversationId = conversationId,
                          member_userId = u, joinedAt = snd (mdraws j)\<rparr>)
           (zip [i..<i + length pre] pre)\<rparr>)"
  using assms
proof (induction pre arbitrary: d i)
  case Nil
  then have "addConversationMember d (mdraws i) conversationId bad = (Inl ForeignKeyViolation, d)"
    by (simp add: addConversationMember_def)
  then show ?case by (simp add: and_then_def)
next
  case (Cons u pre)
  let ?row = "\<lparr>member_id = fst (mdraws i), member_conversationId = conversationId,
                member_userId = u, joinedAt = snd (mdraws i)\<rparr>"
  let ?d1 = "d\<lparr>conversationMembers := conversationMembers d @ [?row]\<rparr>"
  from Cons.prems have step: "addConversationMember d (mdraws i) conversationId u = (Inr (), ?d1)"
    by (simp add: addConversationMember_def)
  have fresh: "\<forall>j \<in> {Suc i..Suc i + length pre}.
      fst (mdraws j) \<notin> set (map member_id (conversationMembers ?d1))"
  proof
    fix j assume j: "j \<in> {Suc i..Suc i + length pre}"
    then have "j \<in> {i..i + length (u # pre)}" by simp
    with Cons.prems(4) have old: "fst (mdraws j) \<notin> set (map member_id (conversationMembers d))"
      by blast
    from j have "j \<noteq> i" by simp
    with Cons.prems(5) \<open>j \<in> {i..i + length (u # pre)}\<close>
    have "fst (mdraws j) \<noteq> fst (mdraws i)"
      by (auto dest: inj_onD)
    with old show "fst (mdraws j) \<notin> set (map member_id (conversationMembers ?d1))" by simp
  qed
  have dist: "inj_on (\<lambda>j. fst (mdraws j)) {Suc i..Suc i + length pre}"
    using Cons.prems(5) by (rule inj_on_subset) auto
  have "addMembers ?d1 mdraws (Suc i) conversationId (pre @ bad # post) =
     (Inl ForeignKeyViolation,
      ?d1\<lparr>conversationMembers := conversationMembers ?d1 @
         map (\<lambda>(j, u). \<lparr>member_id = fst (mdraws j), member_conversationId = conversationId,
                          member_userId = u, joinedAt = snd (mdraws j)\<rparr>)
           (zip [Suc i..<Suc i + length pre] pre)\<rparr>)"
    using Cons.prems(1-3) by (intro Cons.IH [OF _ _ _ fresh dist]) simp_all
  moreover have "zip [i..<i + length (u # pre)] (u # pre) =
      (i, u) # zip [Suc i..<Suc i + length pre] pre"
  proof -
    have "i < Suc i + length pre" by simp
    from upt_conv_Cons [OF this]
    have "[i..<Suc i + length pre] = i # [Suc i..<Suc i + length pre]" .
    moreover have "i + length (u # pre) = Suc i + length pre" by simp
    ultimately have "[i..<i + length (u # pre)] = i # [Suc i..<Suc i + length pre]"
      by (simp only:)
    then show ?thesis by (simp only: zip_Cons_Cons)
  qed
  ultimately show ?case by (simp add: step and_then_def del: upt_Suc)
qed

text \<open>
  C6, as amended. Group creation with a member-id list is not all-or-nothing. When
  the creator is a stored user, the ids \<open>pre\<close> listed first are stored users and the
  next id is not (row ids newly generated), the request is answered with the error
  status 400, and what was inserted before the failing insert stays: the conversation,
  the membership of the creator and the memberships of \<open>pre\<close>. The ids listed after
  the unresolved one are not added.
\<close>

theorem group_creation_keeps_partial_members:
  assumes "uid \<in> set (map user_id (users (store srv)))"
    and "set pre \<subseteq> set (map user_id (users (store srv)))"
    and "bad \<notin> set (map user_id (users (store srv)))"
    and "fst dc \<notin> set (map conv_id (conversations (store srv)))"
    and "fst dcreator \<notin> set (map member_id (conversationMembers (store srv)))"
    and "\<forall>j \<in> {0..length pre}. fst (mdraws j) \<notin>
           set (map member_id (conversationMembers (store srv))) \<union> {fst dcreator}"
    and "inj_on (\<lambda>j. fst (mdraws j)) {0..length pre}"
  shows "\<exists>c. conv_id c = fst dc \<and> conv_name c = ins_name body \<and>
           isGroup c = or_default (Some False) (ins_isGroup body) \<and> createdBy c = Some uid \<and>
           postConversation srv (Some uid) dc dcreator mdraws body (Some (pre @ bad # post)) =
             ((400, JError ''Failed to create conversation''),
              srv\<lparr>store := (store srv)
                 \<lparr>conversations := conversations (store srv) @ [c],
                  conversationMembers := conversationMembers (store srv) @
                    \<lparr>member_id = fst dcreator, member_conversationId = fst dc,
                     member_userId = uid, joinedAt = snd dcreator\<rparr> #
                    map (\<lambda>(j, u). \<lparr>member_id = fst (mdraws j), member_conversationId = fst dc,
                                     member_userId = u, joinedAt = snd (mdraws j)\<rparr>)
                      (zip [0..<length pre] pre)\<rparr>\<rparr>)"
proof -
  let ?d = "store srv"
  let ?c = "\<lparr>conv_id = fst dc, conv_name = ins_name body, description = ins_description body,
            isGroup = or_default (Some False) (ins_isGroup body), conv_avatar = ins_avatar body,
            createdBy = Some uid, conv_createdAt = snd dc\<rparr>"
  let ?d1 = "?d\<lparr>conversations := conversations ?d @ [?c]\<rparr>"
  let ?own = "\<lparr>member_id = fst dcreator, member_conversationId = fst dc,
               member_userId = uid, joinedAt = snd dcreator\<rparr>"
  let ?d2 = "?d1\<lparr>conversationMembers := conversationMembers ?d @ [?own]\<rparr>"
  let ?rows = "map (\<lambda>(j, u). \<lparr>member_id = fst (mdraws j), member_conversationId = fst dc,
                                     member_userId = u, joinedAt = snd (mdraws j)\<rparr>)
                      (zip [0..<length pre] pre)"
  have s1: "createConversation ?d dc (body\<lparr>ins_createdBy := Some uid\<rparr>) = (Inr ?c, ?d1)"
    using assms(1,4) by (simp add: createConversation_def Let_def)
  have s2: "addConversationMember ?d1 dcreator (fst dc) uid = (Inr (), ?d2)"
    using assms(1,5) by (simp add: addConversationMember_def)
  have "addMembers ?d2 mdraws 0 (fst dc) (pre @ bad # post) =
      (Inl ForeignKeyViolation,
       ?d2\<lparr>conversationMembers := conversationMembers ?d2 @
         map (\<lambda>(j, u). \<lparr>member_id = fst (mdraws j), member_conversationId = fst dc,
                          member_userId = u, joinedAt = snd (mdraws j)\<rparr>)
           (zip [0..<0 + length pre] pre)\<rparr>)"
  proof (rule addMembers_stops_at_unknown)
    show "fst dc \<in> set (map conv_id (conversations ?d2))" by simp
    show "set pre \<subseteq> set (map user_id (users ?d2))" using assms(2) by simp
    show "bad \<notin> set (map user_id (users ?d2))" using assms(3) by simp
    show "\<forall>j \<in> {0..0 + length pre}. fst (mdraws j) \<notin> set (map member_id (conversationMembers ?d2))"
      using assms(6) by simp
    show "inj_on (\<lambda>j. fst (mdraws j)) {0..0 + length pre}" using assms(7) by simp
  qed
  then have s3: "addMembers ?d2 mdraws 0 (fst dc) (pre @ bad # post) =
      (Inl ForeignKeyViolation,
       ?d\<lparr>conversations := conversations ?d @ [?c],
           conversationMembers := conversationMembers ?d @ ?own # ?rows\<rparr>)"
    by simp
  have "postConversation srv (Some uid) dc dcreator mdraws body (Some (pre @ bad # post)) =
             ((400, JError ''Failed to create conversation''),
              srv\<lparr>store := ?d\<lparr>conversations := conversations ?d @ [?c],
                  conversationMembers := conversationMembers ?d @ ?own # ?rows\<rparr>\<rparr>)"
    by (simp add: postConversation_def s1 and_then_def s2 s3)
  then show ?thesis by (intro exI [of _ ?c]) simp
qed

lemma failed_group_request_result:
  "failed_group_request =
     ((400, JError ''Failed to create conversation''),
      chat_server\<lparr>store := chat_db
        \<lparr>conversations := [conv_ab, conv_team, conv_crew],
         conversationMembers := [mb1, mb2, mb3, mb4, mb5,
            member_row ''mb-10'' ''c-crew'' ''u-alice'' 51,
            member_row ''mb-11'' ''c-crew'' ''u-bob'' 52]\<rparr>\<rparr>)"
proof -
  let ?d1 = "chat_db\<lparr>conversations := [conv_ab, conv_team, conv_crew]\<rparr>"
  let ?d2 = "?d1\<lparr>conversationMembers := [mb1, mb2, mb3, mb4, mb5,
      member_row ''mb-10'' ''c-crew'' ''u-alice'' 51]\<rparr>"
  let ?d3 = "?d1\<lparr>conversationMembers := [mb1, mb2, mb3, mb4, mb5,
      member_row ''mb-10'' ''c-crew'' ''u-alice'' 51,
      member_row ''mb-11'' ''c-crew'' ''u-bob'' 52]\<rparr>"
  have crew: "conv_id conv_crew = ''c-crew''" by (simp add: conv_crew_def)
  have s1: "createConversation chat_db (''c-crew'', 50) (group_body\<lparr>ins_createdBy := Some ''u-alice''\<rparr>) =
      (Inr conv_crew, ?d1)"
    by (simp add: createConversation_def Let_def group_body_def conv_crew_def example_fields)
  have s2: "addConversationMember ?d1 (''mb-10'', 51) ''c-crew'' ''u-alice'' = (Inr (), ?d2)"
    by (simp add: addConversationMember_def example_fields crew member_row_def)
  have s3: "addConversationMember ?d2 (crew_draws 0) ''c-crew'' ''u-bob'' = (Inr (), ?d3)"
    by (simp add: addConversationMember_def example_fields crew member_row_def crew_draws_def)
  have s4: "addConversationMember ?d3 (crew_draws (Suc 0)) ''c-crew'' ''u-ghost'' =
      (Inl ForeignKeyViolation, ?d3)"
    by (simp add: addConversationMember_def example_fields crew member_row_def crew_draws_def)
  show ?thesis
    by (simp add: failed_group_request_def postConversation_def chat_server_def s1 and_then_def
        crew s2 s3 s4)
qed

text \<open>
  The claim as stated fails: the request is answered with 400, and the group stays
  stored with alice and bob as its members, without carol.
\<close>

theorem group_creation_partial_counterexample:
  "''u-ghost'' \<notin> set (map user_id (users chat_db)) \<and>
   fst failed_group_request = (400, JError ''Failed to create conversation'') \<and>
   conversations (store (snd failed_group_request)) = [conv_ab, conv_team, conv_crew] \<and>
   isGroup conv_crew = Some True \<and>
   members_of (store (snd failed_group_request)) (conv_id conv_crew) = [''u-alice'', ''u-bob'']"
  by (simp add: failed_group_request_result members_of_def example_fields conv_crew_def
      member_row_def)

theorem group_creation_keeps_partial_members_witness:
  "''u-alice'' \<in> set (map user_id (users chat_db)) \<and>
   ''u-bob'' \<in> set (map user_id (users chat_db)) \<and>
   ''u-ghost'' \<notin> set (map user_id (users chat_db)) \<and>
   ''c-crew'' \<notin> set (map conv_id (conversations chat_db)) \<and>
   fst failed_group_request = (400, JError ''Failed to create conversation'') \<and>
   map member_userId (drop 5 (conversationMembers (store (snd failed_group_request)))) =
     [''u-alice'', ''u-bob'']"
proof -
  have h1: "''u-alice'' \<in> set (map user_id (users (store chat_server)))"
    and h2: "set [''u-bob''] \<subseteq> set (map user_id (users (store chat_server)))"
    and h3: "''u-ghost'' \<notin> set (map user_id (users (store chat_server)))"
    and h4: "fst (''c-crew'', 50::nat) \<notin> set (map conv_id (conversations (store chat_server)))"
    and h5: "fst (''mb-10'', 51::nat) \<notin> set (map member_id (conversationMembers (store chat_server)))"
    by (simp_all add: chat_server_def example_fields)
  have h6: "\<forall>j \<in> {0..length [''u-bob'']}. fst (crew_draws j) \<notin>
           set (map member_id (conversationMembers (store chat_server))) \<union> {fst (''mb-10'', 51::nat)}"
    by (simp add: chat_server_def example_fields crew_draws_def)
  have h7: "inj_on (\<lambda>j. fst (crew_draws j)) {0..length [''u-bob'']}"
    by (auto simp: inj_on_def crew_draws_def)
  from group_creation_keeps_partial_members [OF h1 h2 h3 h4 h5 h6 h7, of group_body "[''u-carol'']"]
  obtain c where res: "failed_group_request =
      ((400, JError ''Failed to create conversation''),
       chat_server\<lparr>store := (store chat_server)
          \<lparr>conversations := conversations (store chat_server) @ [c],
           conversationMembers := conversationMembers (store chat_server) @
             \<lparr>member_id = ''mb-10'', member_conversationId = ''c-crew'',
              member_userId = ''u-alice'', joinedAt = 51\<rparr> #
             map (\<lambda>(j, u). \<lparr>member_id = fst (crew_draws j), member_conversationId = ''c-crew'',
                              member_userId = u, joinedAt = snd (crew_draws j)\<rparr>)
               (zip [0..<length [''u-bob'']] [''u-bob''])\<rparr>\<rparr>)"
    by (auto simp: failed_group_request_def)
  have "fst failed_group_request = (400, JError ''Failed to create conversation'')"
    and "map member_userId (drop 5 (conversationMembers (store (snd failed_group_request)))) =
     [''u-alice'', ''u-bob'']"
    by (simp_all add: res chat_server_def example_fields)
  with h1 h2 h3 h4 show ?thesis by (simp add: chat_server_def)
qed

subsection \<open>User search\<close>

lemma searchUsers_at_most_20: "length (searchUsers d query excludeUserId) \<le> 20"
  by (simp add: searchUsers_def)

lemma searchUsers_excludes:
  "u \<in> set (searchUsers d query excludeUserId) \<Longrightarrow> user_id u \<noteq> excludeUserId"
  unfolding searchUsers_def by (auto dest: in_set_takeD)

lemma searchUsers_matches_pattern:
  "u \<in> set (searchUsers d query excludeUserId) \<Longrightarrow>
     u \<in> set (users d) \<and>
     (ilike (username u) (''%'' @ query @ ''%'') \<or> ilike (email u) (''%'' @ query @ ''%''))"
  unfolding searchUsers_def by (auto dest: in_set_takeD)

lemma like_match_percent: "like_match ''%'' t"
  by (induction t) simp_all

lemma like_match_plain_prefix:
  assumes "set q \<inter> {CHR ''%'', CHR ''_'', CHR 0x5C} = {}"
  shows "like_match (q @ ''%'') t \<longleftrightarrow> is_prefix q t"
  using assms
proof (induction q arbitrary: t)
  case Nil
  then show ?case using like_match_percent by simp
next
  case (Cons c q)
  then have "c \<noteq> CHR ''%''" "c \<noteq> CHR ''_''" "c \<noteq> CHR 0x5C"
    and "set q \<inter> {CHR ''%'', CHR ''_'', CHR 0x5C} = {}"
    by auto
  with Cons.IH show ?case by (cases t) auto
qed

lemma like_match_plain_substring:
  assumes "set q \<inter> {CHR ''%'', CHR ''_'', CHR 0x5C} = {}"
  shows "like_match (''%'' @ q @ ''%'') t \<longleftrightarrow> occurs_in q t"
proof (induction t)
  case Nil
  show ?case using like_match_plain_prefix [OF assms, of "[]"] by (cases q) simp_all
next
  case (Cons c t)
  with like_match_plain_prefix [OF assms, of "c # t"] show ?case by simp
qed

lemma lower_char_keeps:
  "lower_char c = CHR ''%'' \<longleftrightarrow> c = CHR ''%''"
  "lower_char c = CHR ''_'' \<longleftrightarrow> c = CHR ''_''"
  "lower_char c = CHR 0x5C \<longleftrightarrow> c = CHR 0x5C"
  by (auto simp: lower_char_def split: option.splits if_splits)

text \<open>
  For a query without \<open>%\<close>, \<open>_\<close> and backslash, the pattern match of the search is
  the case-insensitive substring test.
\<close>

lemma ilike_plain_query:
  assumes "set query \<inter> {CHR ''%'', CHR ''_'', CHR 0x5C} = {}"
  shows "ilike t (''%'' @ query @ ''%'') \<longleftrightarrow> ci_substring query t"
proof -
  have "lower_char c \<notin> {CHR ''%'', CHR ''_'', CHR 0x5C}" if "c \<in> set query" for c
  proof -
    from that assms have "c \<noteq> CHR ''%''" "c \<noteq> CHR ''_''" "c \<noteq> CHR 0x5C" by auto
    then show ?thesis by (simp add: lower_char_keeps)
  qed
  then have "set (map lower_char query) \<inter> {CHR ''%'', CHR ''_'', CHR 0x5C} = {}"
    unfolding set_map by blast
  from like_match_plain_substring [OF this]
  show ?thesis by (simp add: ilike_def ci_substring_def lower_char_keeps lower_char_def)
qed

lemma searchUsers_plain_query:
  assumes "set query \<inter> {CHR ''%'', CHR ''_'', CHR 0x5C} = {}"
    and "u \<in> set (searchUsers d query excludeUserId)"
  shows "ci_substring query (username u) \<or> ci_substring query (email u)"
  using searchUsers_matches_pattern [OF assms(2)] ilike_plain_query [OF assms(1)] by blast

text \<open>
  C10. The search returns at most twenty users and never the excluded one, but a
  query with a pattern character returns users in whose name and address it does not
  occur: for the query \<open>b_b\<close> the search returns the user \<open>Bob\<close>.
\<close>

theorem searchUsers_wildcard_query:
  "searchUsers chat_db ''b_b'' ''u-alice'' = [bob] \<and>
   \<not> ci_substring ''b_b'' (username bob) \<and> \<not> ci_substring ''b_b'' (email bob)"
proof -
  have "searchUsers chat_db ''b_b'' ''u-alice'' = [bob]"
    by (simp add: searchUsers_def example_fields ilike_def lower_char_def)
  moreover have "\<not> ci_substring ''b_b'' (username bob)" "\<not> ci_substring ''b_b'' (email bob)"
    by (simp_all add: ci_substring_def user_fields lower_char_def)
  ultimately show ?thesis by simp
qed

end
